theory Spec2Isabelle
  imports Complex_Main "HOL-Library.Log_Nat"
begin


section \<open>JavaScript values read from JSON and YAML files\<close>

text \<open>
  \<^verbatim>\<open>JSON.parse\<close> and \<^verbatim>\<open>YAML.parse\<close> return plain data: null, booleans, numbers,
  strings, arrays and objects. An object keeps its own properties as an association list
  (the first binding of a key is the one a lookup finds). A string is the list of the
  bytes of its text in UTF-8; an ASCII character is one byte.
\<close>

datatype json =
    JNull
  | JBool bool
  | JNum rat
  | JStr string
  | JArr "json list"
  | JObj "(string \<times> json) list"

text \<open>
  The result of a property read \<^verbatim>\<open>x[k]\<close>: \<^verbatim>\<open>undefined\<close>, a data value, or a member
  inherited from a built-in prototype (a function such as \<^verbatim>\<open>toString\<close>, or the prototype
  object itself for \<^verbatim>\<open>__proto__\<close>). Inherited members are truthy and are not arrays.
\<close>

datatype jsval = Undefined | Val json | Native

datatype file_kind = TestDataFile | ReportFile

datatype error =
    NotFound file_kind string
  | ParseError string string string
  | MissingKey string string
  | NotAnArray string string
  | TypeError string
  | RangeError string
  | Thrown string

text \<open>
  How each constructor arises in the source:
  \<^item> \<open>NotFound TestDataFile p\<close>: \<^verbatim>\<open>throw new Error(`Test data file not found: ${p}`)\<close>, and
    \<open>NotFound ReportFile p\<close>: \<^verbatim>\<open>throw new Error(`Report file not found: ${p}`)\<close>, each
    thrown when \<^verbatim>\<open>fs.existsSync(p)\<close> is false;
  \<^item> \<open>ParseError fmt p msg\<close>: \<^verbatim>\<open>throw new Error(`Failed to parse ${fmt} file ${p}: ${msg}`)\<close>;
  \<^item> \<open>MissingKey k f\<close>: \<^verbatim>\<open>throw new Error(`Key "${k}" not found in test data file: ${f}`)\<close>;
  \<^item> \<open>NotAnArray k f\<close>: \<^verbatim>\<open>throw new Error(`Key "${k}" is not an array in test data file: ${f}`)\<close>;
  \<^item> \<open>TypeError msg\<close>, \<open>RangeError msg\<close>: raised by the language itself (a call of
    something that is not a function, a property read on \<^verbatim>\<open>undefined\<close> or \<^verbatim>\<open>null\<close>,
    \<^verbatim>\<open>toISOString\<close> of an invalid date); the message
    is the engine's;
  \<^item> \<open>Thrown msg\<close>: an error thrown by a library the program calls (file system, parser,
    mail transport), with its message.
  The environment's operations that can throw return the message of what they throw.
  \<open>message_of\<close> is the \<^verbatim>\<open>message\<close> property the \<^verbatim>\<open>catch\<close> blocks log.
\<close>

fun message_of :: "error \<Rightarrow> string" where
  "message_of (NotFound TestDataFile p) = ''Test data file not found: '' @ p"
| "message_of (NotFound ReportFile p) = ''Report file not found: '' @ p"
| "message_of (ParseError fmt p msg) = ''Failed to parse '' @ fmt @ '' file '' @ p @ '': '' @ msg"
| \<open>message_of (MissingKey k f) = ''Key "'' @ k @ ''" not found in test data file: '' @ f\<close>
| \<open>message_of (NotAnArray k f) = ''Key "'' @ k @ ''" is not an array in test data file: '' @ f\<close>
| "message_of (TypeError msg) = msg"
| "message_of (RangeError msg) = msg"
| "message_of (Thrown msg) = msg"

fun truthy :: "jsval \<Rightarrow> bool" where
  "truthy Undefined = False"
| "truthy Native = True"
| "truthy (Val JNull) = False"
| "truthy (Val (JBool b)) = b"
| "truthy (Val (JNum n)) = (n \<noteq> 0)"
| "truthy (Val (JStr s)) = (s \<noteq> [])"
| "truthy (Val (JArr xs)) = True"
| "truthy (Val (JObj kvs)) = True"

fun isArray :: "jsval \<Rightarrow> bool" where
  "isArray (Val (JArr xs)) = True"
| "isArray v = False"

subsection \<open>Decimal numerals\<close>

fun digit_char :: "nat \<Rightarrow> char" where
  "digit_char n = ''0123456789'' ! (n mod 10)"

fun show_nat :: "nat \<Rightarrow> string" where
  "show_nat n = (if n < 10 then [digit_char n] else show_nat (n div 10) @ [digit_char n])"

declare show_nat.simps [simp del]

definition show_int :: "int \<Rightarrow> string" where
  "show_int i = (if i < 0 then CHR ''-'' # show_nat (nat (- i)) else show_nat (nat i))"

subsection \<open>Property reads\<close>

text \<open>
  The members every plain object inherits from \<^verbatim>\<open>Object.prototype\<close>. A read of one of
  these names on an object that has no own property of that name yields the inherited
  member, not \<^verbatim>\<open>undefined\<close>.
\<close>

definition object_prototype_keys :: "string list" where
  "object_prototype_keys =
     [''constructor'', ''__proto__'', ''hasOwnProperty'', ''isPrototypeOf'',
      ''propertyIsEnumerable'', ''toLocaleString'', ''toString'', ''valueOf'',
      ''__defineGetter__'', ''__defineSetter__'', ''__lookupGetter__'', ''__lookupSetter__'']"

text \<open>
  \<open>own_prop kvs k\<close> is the read of a fixed key on a record
  (\<^verbatim>\<open>Record<string, unknown>\<close>); \<open>js_get\<close> is the read \<^verbatim>\<open>data[k]\<close> of a computed key on
  a record, which also sees the inherited members.
\<close>

definition own_prop :: "(string \<times> json) list \<Rightarrow> string \<Rightarrow> jsval" where
  "own_prop kvs k = (case map_of kvs k of Some v \<Rightarrow> Val v | None \<Rightarrow> Undefined)"

definition js_get :: "(string \<times> json) list \<Rightarrow> string \<Rightarrow> jsval" where
  "js_get kvs k =
     (case map_of kvs k of
        Some v \<Rightarrow> Val v
      | None \<Rightarrow> if k \<in> set object_prototype_keys then Native else Undefined)"

section \<open>Test data loader\<close>

text \<open>
  What the loader uses of its environment: the file system, the two parsers, path
  arithmetic and the configured data format. A parser returns the parsed value or the
  message of the error it throws. \<open>'a\<close> is the type argument \<^verbatim>\<open>T\<close> of
  \<^verbatim>\<open>loadTestData<T>\<close>: the shape the caller asserts for the file's content.
\<close>

datatype DataFormat = Json | Yaml

record node_fs =
  existsSync :: "string \<Rightarrow> bool"
  readFileSync :: "string \<Rightarrow> string + string"

record 'a loader_env = node_fs +
  JSON_parse :: "string \<Rightarrow> string + 'a"
  YAML_parse :: "string \<Rightarrow> string + 'a"
  path_join :: "string \<Rightarrow> string \<Rightarrow> string"
  DATA_DIRS :: "DataFormat \<Rightarrow> string"
  getDataFormat :: "DataFormat"

definition extension_of :: "DataFormat \<Rightarrow> string" where
  "extension_of dataFormat = (if dataFormat = Json then ''.json'' else ''.yaml'')"

definition format_upper :: "DataFormat \<Rightarrow> string" where
  "format_upper dataFormat = (case dataFormat of Json \<Rightarrow> ''JSON'' | Yaml \<Rightarrow> ''YAML'')"

definition data_file_path :: "'a loader_env \<Rightarrow> string \<Rightarrow> DataFormat option \<Rightarrow> string" where
  "data_file_path env filename fmt =
     (let dataFormat = (case fmt of Some f \<Rightarrow> f | None \<Rightarrow> getDataFormat env)
      in path_join env (DATA_DIRS env dataFormat) (filename @ extension_of dataFormat))"

definition loadTestData :: "'a loader_env \<Rightarrow> string \<Rightarrow> DataFormat option \<Rightarrow> error + 'a" where
  "loadTestData env filename fmt =
     (let dataFormat = (case fmt of Some f \<Rightarrow> f | None \<Rightarrow> getDataFormat env);
          filePath = data_file_path env filename fmt
      in if \<not> existsSync env filePath then Inl (NotFound TestDataFile filePath)
         else case readFileSync env filePath of
                Inl msg \<Rightarrow> Inl (Thrown msg)
              | Inr fileContent \<Rightarrow>
                  (case (if dataFormat = Json then JSON_parse env fileContent
                         else YAML_parse env fileContent) of
                     Inl errorMessage \<Rightarrow> Inl (ParseError (format_upper dataFormat) filePath errorMessage)
                   | Inr v \<Rightarrow> Inr v))"

text \<open>
  \<^verbatim>\<open>loadTestDataArray\<close> instantiates \<^verbatim>\<open>T\<close> with a record. \<^verbatim>\<open>!data[arrayKey]\<close> is the
  truthiness test of the read, \<^verbatim>\<open>Array.isArray\<close> the second test.
\<close>

definition loadTestDataArray ::
  "((string \<times> json) list) loader_env \<Rightarrow> string \<Rightarrow> string \<Rightarrow> error + json list" where
  "loadTestDataArray env filename arrayKey =
     (case loadTestData env filename None of
        Inl e \<Rightarrow> Inl e
      | Inr data \<Rightarrow>
          (if \<not> truthy (js_get data arrayKey) then Inl (MissingKey arrayKey filename)
           else case js_get data arrayKey of
                  Val (JArr xs) \<Rightarrow> Inr xs
                | _ \<Rightarrow> Inl (NotAnArray arrayKey filename)))"

section \<open>Result parser\<close>

text \<open>
  The serialized report, with the shape the parser's type assertions give it:
  \<^verbatim>\<open>suites[].specs[].tests[].results[]\<close>, every array optional. A spec carries one entry
  of \<^verbatim>\<open>tests\<close> per configured project, and each entry its list \<^verbatim>\<open>results\<close> of attempts.
  An attempt is a \<^verbatim>\<open>Record<string, unknown>\<close>: the parser reads its \<^verbatim>\<open>status\<close>,
  \<^verbatim>\<open>duration\<close> and \<^verbatim>\<open>error\<close> without checking them.
\<close>

record spec_test =
  results :: "(string \<times> json) list list option"

record spec =
  title :: string
  tests :: "spec_test list option"

datatype suite = Suite (specs: "spec list option") (suites: "suite list option")

text \<open>
  The flattened result. \<^verbatim>\<open>status\<close> and \<^verbatim>\<open>duration\<close> are declared
  \<^verbatim>\<open>'passed' | 'failed' | 'skipped'\<close> and \<^verbatim>\<open>number\<close>, but the parser fills them through
  unchecked casts of \<^verbatim>\<open>unknown\<close>, so they hold whatever the report held.
\<close>

record TestResult =
  name :: string
  status :: jsval
  duration :: jsval
  error :: "string option"
  retries :: nat

record status_counts =
  n_passed :: nat
  n_failed :: nat
  n_skipped :: nat

text \<open>A \<^verbatim>\<open>for ... of\<close> loop whose body may throw: the first error ends the loop.\<close>

fun each :: "('a \<Rightarrow> 's \<Rightarrow> error + 's) \<Rightarrow> 'a list \<Rightarrow> 's \<Rightarrow> error + 's" where
  "each body [] s = Inr s"
| "each body (x # xs) s = (case body x s of Inl e \<Rightarrow> Inl e | Inr s' \<Rightarrow> each body xs s')"

text \<open>
  \<^verbatim>\<open>s.substring(0, n)\<close> keeps the first \<open>n\<close> UTF-16 code units of \<open>s\<close>. A character of
  one, two or three bytes is one unit; a character of four bytes is two units, a
  surrogate pair. When the cut falls between the two units of a pair, the result ends
  with the high surrogate alone, written as the three bytes of its code.
\<close>

fun high_surrogate :: "string \<Rightarrow> string" where
  "high_surrogate [b0, b1, b2, b3] =
     (let cp = (of_char b0 mod 8) * 262144 + (of_char b1 mod 64) * 4096
               + (of_char b2 mod 64) * 64 + of_char b3 mod (64 :: nat);
          hi = 55296 + (cp - 65536) div 1024
      in [char_of (224 + hi div 4096), char_of (128 + hi div 64 mod 64), char_of (128 + hi mod 64)])"
| "high_surrogate bs = bs"

fun substring_0 :: "nat \<Rightarrow> string \<Rightarrow> string" where
  "substring_0 0 s = []"
| "substring_0 (Suc n) [] = []"
| "substring_0 (Suc n) (c # cs) =
     (if (of_char c :: nat) < 192 then c # substring_0 n cs
      else if (of_char c :: nat) < 224 then c # take 1 cs @ substring_0 n (drop 1 cs)
      else if (of_char c :: nat) < 240 then c # take 2 cs @ substring_0 n (drop 2 cs)
      else if n = 0 then high_surrogate (c # take 3 cs)
      else c # take 3 cs @ substring_0 (n - 1) (drop 3 cs))"

text \<open>
  \<^verbatim>\<open>lastResult.error ? (lastResult.error.message || String(lastResult.error)).substring(0, 200) : undefined\<close>.
  \<open>toStr\<close> is the built-in conversion \<^verbatim>\<open>String(v)\<close>. A truthy \<^verbatim>\<open>message\<close> that is
  not a string has no method \<^verbatim>\<open>substring\<close>: the call throws a TypeError, with the
  engine's message for this call.
\<close>

definition error_text :: "(json \<Rightarrow> string + string) \<Rightarrow> jsval \<Rightarrow> error + string option" where
  "error_text toStr e =
     (case e of
        Val v \<Rightarrow>
          if \<not> truthy e then Inr None
          else
            let message = (case v of JObj kvs \<Rightarrow> own_prop kvs ''message'' | _ \<Rightarrow> Undefined)
            in if truthy message
               then (case message of
                       Val (JStr m) \<Rightarrow> Inr (Some (substring_0 200 m))
                     | _ \<Rightarrow> Inl (TypeError
                           ''(lastResult.error.message || String(...)).substring is not a function''))
               else (case toStr v of
                       Inl msg \<Rightarrow> Inl (TypeError msg)
                     | Inr str \<Rightarrow> Inr (Some (substring_0 200 str)))
      | _ \<Rightarrow> Inr None)"

text \<open>\<^verbatim>\<open>v || 0\<close>.\<close>

definition or_zero :: "jsval \<Rightarrow> jsval" where
  "or_zero v = (if truthy v then v else Val (JNum 0))"

definition flatten_attempts ::
  "(json \<Rightarrow> string + string) \<Rightarrow> string \<Rightarrow> (string \<times> json) list list \<Rightarrow> error + TestResult" where
  "flatten_attempts toStr spec_title resultsList =
     (let lastResult = resultsList ! (length resultsList - 1)
      in case error_text toStr (own_prop lastResult ''error'') of
           Inl e \<Rightarrow> Inl e
         | Inr err \<Rightarrow>
             Inr \<lparr>name = spec_title,
                  status = own_prop lastResult ''status'',
                  duration = or_zero (own_prop lastResult ''duration''),
                  error = err,
                  retries = length resultsList - 1\<rparr>)"

definition parse_test ::
  "(json \<Rightarrow> string + string) \<Rightarrow> string \<Rightarrow> spec_test \<Rightarrow> TestResult list \<Rightarrow> error + TestResult list" where
  "parse_test toStr spec_title result acc =
     (case results result of
        None \<Rightarrow> Inr acc
      | Some resultsList \<Rightarrow>
          if length resultsList > 0
          then (case flatten_attempts toStr spec_title resultsList of
                  Inl e \<Rightarrow> Inl e
                | Inr t \<Rightarrow> Inr (acc @ [t]))
          else Inr acc)"

definition parse_spec ::
  "(json \<Rightarrow> string + string) \<Rightarrow> spec \<Rightarrow> TestResult list \<Rightarrow> error + TestResult list" where
  "parse_spec toStr sp acc =
     (case tests sp of
        None \<Rightarrow> Inr acc
      | Some rs \<Rightarrow> each (parse_test toStr (title sp)) rs acc)"

fun parseTestSuite ::
  "(json \<Rightarrow> string + string) \<Rightarrow> suite \<Rightarrow> TestResult list \<Rightarrow> status_counts \<Rightarrow> error + TestResult list"
and parseNestedSuites ::
  "(json \<Rightarrow> string + string) \<Rightarrow> suite list \<Rightarrow> TestResult list \<Rightarrow> status_counts \<Rightarrow> error + TestResult list"
where
  "parseTestSuite toStr (Suite sps nestedSuites) acc counts =
     (case (case sps of None \<Rightarrow> Inr acc | Some l \<Rightarrow> each (parse_spec toStr) l acc) of
        Inl e \<Rightarrow> Inl e
      | Inr acc1 \<Rightarrow>
          (case nestedSuites of
             None \<Rightarrow> Inr acc1
           | Some l \<Rightarrow> parseNestedSuites toStr l acc1 counts))"
| "parseNestedSuites toStr [] acc counts = Inr acc"
| "parseNestedSuites toStr (nestedSuite # l) acc counts =
     (case parseTestSuite toStr nestedSuite acc counts of
        Inl e \<Rightarrow> Inl e
      | Inr acc1 \<Rightarrow> parseNestedSuites toStr l acc1 counts)"

text \<open>The counting loop of \<^verbatim>\<open>parsePlaywrightReport\<close>: one \<^verbatim>\<open>switch\<close> per result.\<close>

definition count_result :: "status_counts \<Rightarrow> TestResult \<Rightarrow> status_counts" where
  "count_result c t =
     (if status t = Val (JStr ''passed'') then c\<lparr>n_passed := n_passed c + 1\<rparr>
      else if status t = Val (JStr ''failed'') then c\<lparr>n_failed := n_failed c + 1\<rparr>
      else if status t = Val (JStr ''skipped'') then c\<lparr>n_skipped := n_skipped c + 1\<rparr>
      else c)"

definition count_results :: "TestResult list \<Rightarrow> status_counts" where
  "count_results ts = foldl count_result \<lparr>n_passed = 0, n_failed = 0, n_skipped = 0\<rparr> ts"

text \<open>
  The parsed report and the summary. A \<^verbatim>\<open>Date\<close> is its time value in milliseconds,
  \<open>None\<close> for an invalid date.
\<close>

record report =
  report_suites :: "suite list option"
  stats_duration :: "rat option"
  stats_startTime :: "string option"
  stats_endTime :: "string option"
  project_name :: "string option"

record TestResultSummary =
  totalTests :: nat
  passed :: nat
  failed :: nat
  skipped :: nat
  duration :: rat
  startTime :: "int option"
  endTime :: "int option"
  environment :: string
  browserName :: "string option"

record EmailReportData =
  summary :: TestResultSummary
  tests :: "TestResult list"
  projectName :: "string option"
  buildUrl :: "string option"

record report_env = node_fs +
  parse_report :: "string \<Rightarrow> string + report"
  String_of :: "json \<Rightarrow> string + string"
  Date_parse :: "string \<Rightarrow> int option"
  Date_now :: int
  testEnv :: string
  CI_JOB_URL :: "string option"
  BUILD_URL :: "string option"

text \<open>\<^verbatim>\<open>a || b\<close> on an optional string: the empty string is falsy too.\<close>

definition str_or :: "string option \<Rightarrow> string \<Rightarrow> string" where
  "str_or a b = (case a of Some s \<Rightarrow> if s \<noteq> [] then s else b | None \<Rightarrow> b)"

definition make_date :: "report_env \<Rightarrow> string option \<Rightarrow> int option" where
  "make_date env t =
     (case t of
        Some s \<Rightarrow> if s \<noteq> [] then Date_parse env s else Some (Date_now env)
      | None \<Rightarrow> Some (Date_now env))"

definition parsePlaywrightReport :: "report_env \<Rightarrow> string \<Rightarrow> error + EmailReportData" where
  "parsePlaywrightReport env reportPath =
     (if \<not> existsSync env reportPath then Inl (NotFound ReportFile reportPath)
      else case readFileSync env reportPath of
             Inl msg \<Rightarrow> Inl (Thrown msg)
           | Inr reportContent \<Rightarrow>
               (case parse_report env reportContent of
                  Inl msg \<Rightarrow> Inl (Thrown msg)
                | Inr rep \<Rightarrow>
                    (case parseNestedSuites (String_of env)
                            (case report_suites rep of Some l \<Rightarrow> l | None \<Rightarrow> []) []
                            \<lparr>n_passed = 0, n_failed = 0, n_skipped = 0\<rparr> of
                       Inl e \<Rightarrow> Inl e
                     | Inr ts \<Rightarrow>
                         let c = count_results ts in
                         Inr \<lparr>summary =
                                \<lparr>totalTests = length ts,
                                 passed = n_passed c,
                                 failed = n_failed c,
                                 skipped = n_skipped c,
                                 duration = (case stats_duration rep of Some d \<Rightarrow> d | None \<Rightarrow> 0),
                                 startTime = make_date env (stats_startTime rep),
                                 endTime = make_date env (stats_endTime rep),
                                 environment = testEnv env,
                                 browserName = Some (str_or (project_name rep) ''chromium'')\<rparr>,
                              tests = ts,
                              projectName = Some ''Playwright E2E Tests'',
                              buildUrl = Some (str_or (CI_JOB_URL env) (str_or (BUILD_URL env) ''#''))\<rparr>)))"

section \<open>Test-management client\<close>

subsection \<open>The two regular expressions\<close>

text \<open>
  Both patterns, \<^verbatim>\<open>/@squashTM:([A-Z0-9-]+)/i\<close> and \<^verbatim>\<open>/TC-(\d+)/i\<close>, are a literal
  followed by one greedy character class in a capture group. \<^verbatim>\<open>String.prototype.match\<close>
  without the \<^verbatim>\<open>g\<close> flag tries the start positions from left to right and returns
  the first match; the group is the longest run of class characters after the literal,
  and must not be empty. The \<^verbatim>\<open>i\<close> flag compares characters by their upper case; a
  character outside ASCII never matches an ASCII one. \<open>toUpperCase\<close> is the upper case of
  the letters \<^verbatim>\<open>a\<close> to \<^verbatim>\<open>z\<close> and leaves every other byte as it is.
\<close>

definition toUpper :: "char \<Rightarrow> char" where
  "toUpper c =
     (case map_of (zip ''abcdefghijklmnopqrstuvwxyz'' ''ABCDEFGHIJKLMNOPQRSTUVWXYZ'') c of
        Some u \<Rightarrow> u
      | None \<Rightarrow> c)"

definition toUpperCase :: "string \<Rightarrow> string" where
  "toUpperCase s = map toUpper s"

fun matches_ci :: "string \<Rightarrow> string \<Rightarrow> bool" where
  "matches_ci [] s = True"
| "matches_ci (p # ps) [] = False"
| "matches_ci (p # ps) (c # cs) = (toUpper p = toUpper c \<and> matches_ci ps cs)"

definition is_id_char :: "char \<Rightarrow> bool" where
  "is_id_char c = (toUpper c \<in> set ''ABCDEFGHIJKLMNOPQRSTUVWXYZ0123456789-'')"

definition is_digit :: "char \<Rightarrow> bool" where
  "is_digit c = (c \<in> set ''0123456789'')"

definition match_here :: "string \<Rightarrow> (char \<Rightarrow> bool) \<Rightarrow> string \<Rightarrow> string option" where
  "match_here lit cls s =
     (if matches_ci lit s \<and> takeWhile cls (drop (length lit) s) \<noteq> []
      then Some (takeWhile cls (drop (length lit) s))
      else None)"

fun regex_search :: "string \<Rightarrow> (char \<Rightarrow> bool) \<Rightarrow> string \<Rightarrow> string option" where
  "regex_search lit cls [] = match_here lit cls []"
| "regex_search lit cls (c # cs) =
     (case match_here lit cls (c # cs) of
        Some g \<Rightarrow> Some g
      | None \<Rightarrow> regex_search lit cls cs)"

definition parseSquashId :: "string \<Rightarrow> string option" where
  "parseSquashId testTitle = regex_search ''@squashTM:'' is_id_char testTitle"

definition extractTestCaseId :: "string \<Rightarrow> string option" where
  "extractTestCaseId squashId = regex_search ''TC-'' is_digit squashId"

subsection \<open>Reporting a result\<close>

datatype SquashTestStatus = PASSED | FAILED | BLOCKED | NOT_RUN | UNTESTABLE | SETTLED

fun status_text :: "SquashTestStatus \<Rightarrow> string" where
  "status_text PASSED = ''PASSED''"
| "status_text FAILED = ''FAILED''"
| "status_text BLOCKED = ''BLOCKED''"
| "status_text NOT_RUN = ''NOT_RUN''"
| "status_text UNTESTABLE = ''UNTESTABLE''"
| "status_text SETTLED = ''SETTLED''"

record TestExecutionResult =
  squashId :: string
  status :: SquashTestStatus
  comment :: "string option"
  screenshotPath :: "string option"
  duration :: "nat option"
  iterationIndex :: "nat option"
  iterationData :: "string option"

text \<open>
  The remote calls the client issues, and what an operation leaves behind: the requests
  sent, in order, and the lines handed to the logger. The logger is taken not to throw.
\<close>

datatype http_request =
    PATCH string SquashTestStatus string string
  | POST string string string string
  | GET string

datatype LogLevel = ERROR | WARN | INFO | DEBUG

record effects =
  requests :: "http_request list"
  logged :: "(LogLevel \<times> string) list"

record squash_env = node_fs +
  request :: "http_request \<Rightarrow> string option"
  base64 :: "string \<Rightarrow> string"
  now_iso :: string
  now_ms :: nat

record SquashTMClient =
  enabled :: bool
  campaignId :: string

definition log_line :: "LogLevel \<Rightarrow> string \<Rightarrow> effects \<Rightarrow> effects" where
  "log_line lvl msg fx = fx\<lparr>logged := logged fx @ [(lvl, msg)]\<rparr>"

definition send_request :: "squash_env \<Rightarrow> http_request \<Rightarrow> effects \<Rightarrow> string option \<times> effects" where
  "send_request env r fx = (request env r, fx\<lparr>requests := requests fx @ [r]\<rparr>)"

definition uploadScreenshot :: "squash_env \<Rightarrow> string \<Rightarrow> string \<Rightarrow> effects \<Rightarrow> effects" where
  "uploadScreenshot env testCaseId path fx =
     (if \<not> existsSync env path then log_line WARN (''Screenshot file not found: '' @ path) fx
      else case readFileSync env path of
             Inl msg \<Rightarrow> log_line ERROR (''Failed to upload screenshot: '' @ msg) fx
           | Inr fileBuffer \<Rightarrow>
               (case send_request env
                       (POST (''/iterations/'' @ testCaseId @ ''/attachments'')
                             (''failure-screenshot-'' @ show_nat (now_ms env) @ ''.png'')
                             (base64 env fileBuffer) ''image/png'') fx of
                  (Some msg, fx1) \<Rightarrow> log_line ERROR (''Failed to upload screenshot: '' @ msg) fx1
                | (None, fx1) \<Rightarrow> log_line INFO (''Screenshot uploaded for test case: '' @ testCaseId) fx1))"

definition build_comment :: "TestExecutionResult \<Rightarrow> string" where
  "build_comment result =
     (let comment0 = str_or (comment result) [];
          comment1 =
            (case iterationIndex result of
               None \<Rightarrow> comment0
             | Some i \<Rightarrow>
                 ''[DDT Iteration '' @ show_nat (i + 1) @ ''] '' @ comment0
                 @ (case iterationData result of
                      None \<Rightarrow> []
                    | Some d \<Rightarrow> if d \<noteq> [] then CHR 10 # ''Test Data: '' @ d else []))
      in comment1
         @ (case TestExecutionResult.duration result of
              None \<Rightarrow> []
            | Some d \<Rightarrow> if d \<noteq> 0 then CHR 10 # ''Duration: '' @ show_nat d @ ''ms'' else []))"

definition reportResult ::
  "SquashTMClient \<Rightarrow> squash_env \<Rightarrow> TestExecutionResult \<Rightarrow> effects \<Rightarrow> (error + bool) \<times> effects" where
  "reportResult client env result fx =
     (if \<not> enabled client
      then (Inr False, log_line DEBUG ''Squash TM reporting is disabled'' fx)
      else
        let fx1 = log_line INFO (''Reporting result to Squash TM: '' @ squashId result @ '' - ''
                                 @ status_text (TestExecutionResult.status result)) fx
        in case extractTestCaseId (squashId result) of
             None \<Rightarrow>
               (Inr False, log_line WARN (''Could not extract test case ID from: '' @ squashId result) fx1)
           | Some testCaseId \<Rightarrow>
               (case send_request env
                       (PATCH (''/iterations/'' @ testCaseId @ ''/test-plan'')
                              (TestExecutionResult.status result) (build_comment result) (now_iso env)) fx1 of
                  (Some msg, fx2) \<Rightarrow>
                    (Inr False, log_line ERROR (''Failed to report to Squash TM: '' @ msg) fx2)
                | (None, fx2) \<Rightarrow>
                    (Inr True,
                     log_line INFO (''Successfully reported result for: '' @ squashId result)
                       (case screenshotPath result of
                          None \<Rightarrow> fx2
                        | Some path \<Rightarrow>
                            if path \<noteq> [] \<and> TestExecutionResult.status result = FAILED
                            then uploadScreenshot env testCaseId path fx2
                            else fx2))))"


section \<open>Email reporter\<close>

subsection \<open>Numbers\<close>

text \<open>
  A JavaScript number is an IEEE 754 double. A finite number is kept as the rational it
  denotes; \<open>NaN\<close> and the two infinities are values of their own. The result of a
  division or a multiplication is rounded to the nearest double, ties to even: \<open>fl\<close>
  keeps 53 significant bits. (The exponent range is not bounded and negative zero is not
  told from zero; neither matters for quotients of counts.)
\<close>

datatype jsnum = Fin rat | NaN | PosInf | NegInf

definition round_half_even :: "rat \<Rightarrow> int" where
  "round_half_even x =
     (let f = \<lfloor>x\<rfloor>; d = x - of_int f
      in if d < 1 / 2 then f else if 1 / 2 < d then f + 1 else if even f then f else f + 1)"

text \<open>
  \<open>binade x\<close> is the exponent \<open>e\<close> with \<open>2 ^ e \<le> x < 2 ^ (e + 1)\<close>, for \<open>x > 0\<close>:
  one less than the bit length of the integer part when \<open>x \<ge> 1\<close>, and otherwise the
  least \<open>j\<close> with \<open>1 / x \<le> 2 ^ j\<close>, negated.
\<close>

definition binade :: "rat \<Rightarrow> int" where
  "binade x = (if 1 \<le> x then bitlen \<lfloor>x\<rfloor> - 1 else - int (ceillog2 (nat \<lceil>1 / x\<rceil>)))"

definition fl :: "rat \<Rightarrow> rat" where
  "fl x =
     (if x = 0 then 0
      else let u = 2 powi (binade \<bar>x\<bar> - 52)
           in sgn x * of_int (round_half_even (\<bar>x\<bar> / u)) * u)"

definition js_divide :: "rat \<Rightarrow> rat \<Rightarrow> jsnum" where
  "js_divide a b =
     (if b = 0 then (if a = 0 then NaN else if 0 < a then PosInf else NegInf)
      else Fin (fl (a / b)))"

definition js_times :: "jsnum \<Rightarrow> rat \<Rightarrow> jsnum" where
  "js_times x c =
     (case x of
        Fin a \<Rightarrow> Fin (fl (a * c))
      | NaN \<Rightarrow> NaN
      | PosInf \<Rightarrow> if 0 < c then PosInf else if c < 0 then NegInf else NaN
      | NegInf \<Rightarrow> if 0 < c then NegInf else if c < 0 then PosInf else NaN)"

text \<open>\<^verbatim>\<open>Math.round\<close>: the nearest integer, a tie going up; exact on a double.\<close>

definition Math_round :: "jsnum \<Rightarrow> jsnum" where
  "Math_round x = (case x of Fin a \<Rightarrow> Fin (of_int \<lfloor>a + 1 / 2\<rfloor>) | _ \<Rightarrow> x)"

text \<open>
  \<^verbatim>\<open>String(n)\<close> for the numbers the reporter prints: integers (below \<open>10 ^ 21\<close>, which
  print in plain digits), \<open>NaN\<close> and the infinities.
\<close>

definition Number_toString :: "jsnum \<Rightarrow> string" where
  "Number_toString x =
     (case x of
        Fin a \<Rightarrow> show_int \<lfloor>a\<rfloor>
      | NaN \<Rightarrow> ''NaN''
      | PosInf \<Rightarrow> ''Infinity''
      | NegInf \<Rightarrow> ''-Infinity'')"

subsection \<open>Placeholder substitution\<close>

text \<open>
  \<^verbatim>\<open>s.replace(/{{NAME}}/g, r)\<close> replaces every occurrence of the literal, scanning from
  the left; \<^verbatim>\<open>s.replace('{{NAME}}', r)\<close> replaces the first one only. In both, the
  replacement text \<open>r\<close> is expanded at each match: \<^verbatim>\<open>$$\<close> stands for a dollar sign,
  \<^verbatim>\<open>$&\<close> for the match, \<^verbatim>\<open>$`\<close> and \<^verbatim>\<open>$'\<close> for the text before and after the match.
\<close>

fun expand_replacement :: "string \<Rightarrow> string \<Rightarrow> string \<Rightarrow> string \<Rightarrow> string" where
  "expand_replacement m left right [] = []"
| "expand_replacement m left right [c] = [c]"
| "expand_replacement m left right (c # d # r) =
     (if c = CHR ''$'' \<and> d = CHR ''$'' then CHR ''$'' # expand_replacement m left right r
      else if c = CHR ''$'' \<and> d = CHR ''&'' then m @ expand_replacement m left right r
      else if c = CHR ''$'' \<and> d = CHR 0x60 then left @ expand_replacement m left right r
      else if c = CHR ''$'' \<and> d = CHR 0x27 then right @ expand_replacement m left right r
      else c # expand_replacement m left right (d # r))"

function replace_from :: "bool \<Rightarrow> string \<Rightarrow> string \<Rightarrow> string \<Rightarrow> string \<Rightarrow> string" where
  "replace_from global pat repl left s =
     (if pat = [] \<or> s = [] then s
      else if take (length pat) s = pat
      then expand_replacement pat left (drop (length pat) s) repl
           @ (if global then replace_from global pat repl (left @ pat) (drop (length pat) s)
              else drop (length pat) s)
      else hd s # replace_from global pat repl (left @ [hd s]) (tl s))"
  by pat_completeness auto
termination
  by (relation "measure (\<lambda>(global, pat, repl, left, s). length s)") auto

declare replace_from.simps [simp del]

definition replace_all :: "string \<Rightarrow> string \<Rightarrow> string \<Rightarrow> string" where
  "replace_all pat repl s = replace_from True pat repl [] s"

definition replace_first :: "string \<Rightarrow> string \<Rightarrow> string \<Rightarrow> string" where
  "replace_first pat repl s = replace_from False pat repl [] s"

subsection \<open>The report\<close>

definition cross_mark :: string where
  "cross_mark = [CHR 0xE2, CHR 0x9D, CHR 0x8C]"

definition check_mark :: string where
  "check_mark = [CHR 0xE2, CHR 0x9C, CHR 0x85]"

definition skip_mark :: string where
  "skip_mark = [CHR 0xE2, CHR 0x8F, CHR 0xAD, CHR 0xEF, CHR 0xB8, CHR 0x8F]"

definition question_mark :: string where
  "question_mark = [CHR 0xE2, CHR 0x9D, CHR 0x93]"

definition default_template_lines :: "string list" where
  \<open>default_template_lines =
     [
      ''<!DOCTYPE html>'',
      ''<html>'',
      ''<head>'',
      ''  <meta charset="UTF-8">'',
      ''  <title>Test Report</title>'',
      ''</head>'',
      ''<body style="font-family: Arial, sans-serif; margin: 0; padding: 20px; background-color: #f5f5f5;">'',
      ''  <div style="max-width: 800px; margin: 0 auto; background-color: #fff; border-radius: 8px; overflow: hidden; box-shadow: 0 2px 10px rgba(0,0,0,0.1);">'',
      ''    <!-- Header -->'',
      ''    <div style="background-color: {{STATUS_COLOR}}; color: white; padding: 20px; text-align: center;">'',
      ''      <h1 style="margin: 0;">{{STATUS_EMOJI}} {{PROJECT_NAME}}</h1>'',
      ''      <p style="margin: 10px 0 0 0; opacity: 0.9;">Environment: {{ENVIRONMENT}}</p>'',
      ''    </div>'',
      ''    '',
      ''    <!-- Summary -->'',
      ''    <div style="padding: 20px;">'',
      ''      <h2 style="color: #333; border-bottom: 2px solid #eee; padding-bottom: 10px;">Summary</h2>'',
      ''      <div style="display: flex; flex-wrap: wrap; gap: 20px;">'',
      ''        <div style="flex: 1; min-width: 150px; background: #f8f9fa; padding: 15px; border-radius: 8px; text-align: center;">'',
      ''          <div style="font-size: 32px; font-weight: bold; color: #333;">{{TOTAL_TESTS}}</div>'',
      ''          <div style="color: #666;">Total Tests</div>'',
      ''        </div>'',
      ''        <div style="flex: 1; min-width: 150px; background: #d4edda; padding: 15px; border-radius: 8px; text-align: center;">'',
      ''          <div style="font-size: 32px; font-weight: bold; color: #28a745;">{{PASSED}}</div>'',
      ''          <div style="color: #666;">Passed</div>'',
      ''        </div>'',
      ''        <div style="flex: 1; min-width: 150px; background: #f8d7da; padding: 15px; border-radius: 8px; text-align: center;">'',
      ''          <div style="font-size: 32px; font-weight: bold; color: #dc3545;">{{FAILED}}</div>'',
      ''          <div style="color: #666;">Failed</div>'',
      ''        </div>'',
      ''        <div style="flex: 1; min-width: 150px; background: #fff3cd; padding: 15px; border-radius: 8px; text-align: center;">'',
      ''          <div style="font-size: 32px; font-weight: bold; color: #856404;">{{SKIPPED}}</div>'',
      ''          <div style="color: #666;">Skipped</div>'',
      ''        </div>'',
      ''      </div>'',
      ''      '',
      ''      <div style="margin-top: 20px; padding: 15px; background: #e9ecef; border-radius: 8px;">'',
      ''        <p style="margin: 5px 0;"><strong>Pass Rate:</strong> {{PASS_RATE}}%</p>'',
      ''        <p style="margin: 5px 0;"><strong>Duration:</strong> {{DURATION}}</p>'',
      ''        <p style="margin: 5px 0;"><strong>Started:</strong> {{START_TIME}}</p>'',
      ''        <p style="margin: 5px 0;"><strong>Ended:</strong> {{END_TIME}}</p>'',
      ''      </div>'',
      ''    </div>'',
      ''    '',
      ''    <!-- Test Results -->'',
      ''    <div style="padding: 20px;">'',
      ''      <h2 style="color: #333; border-bottom: 2px solid #eee; padding-bottom: 10px;">Test Results</h2>'',
      ''      <table style="width: 100%; border-collapse: collapse;">'',
      ''        <thead>'',
      ''          <tr style="background-color: #f8f9fa;">'',
      ''            <th style="padding: 12px; text-align: left; border-bottom: 2px solid #dee2e6;">Test Name</th>'',
      ''            <th style="padding: 12px; text-align: center; border-bottom: 2px solid #dee2e6;">Status</th>'',
      ''            <th style="padding: 12px; text-align: center; border-bottom: 2px solid #dee2e6;">Duration</th>'',
      ''            <th style="padding: 12px; text-align: left; border-bottom: 2px solid #dee2e6;">Error</th>'',
      ''          </tr>'',
      ''        </thead>'',
      ''        <tbody>'',
      ''          {{TEST_RESULTS_ROWS}}'',
      ''        </tbody>'',
      ''      </table>'',
      ''    </div>'',
      ''    '',
      ''    <!-- Footer -->'',
      ''    <div style="background-color: #f8f9fa; padding: 15px; text-align: center; color: #666;">'',
      ''      <p style="margin: 0;">Generated by Playwright E2E Framework</p>'',
      ''      <p style="margin: 5px 0 0 0;"><a href="{{BUILD_URL}}" style="color: #007bff;">View Full Report</a></p>'',
      ''    </div>'',
      ''  </div>'',
      ''</body>'',
      ''</html>''
     ]\<close>

definition getDefaultTemplate :: string where
  "getDefaultTemplate = concat (map (\<lambda>l. CHR 10 # l) default_template_lines) @ CHR 10 # ''    ''"

record mail_options =
  mail_from :: string
  mail_to :: string
  subject :: string
  html :: string
  attachments :: "(string \<times> string) list"

record email_env = node_fs +
  templatePath :: string
  toISOString :: "int \<Rightarrow> string"
  String_conv :: "json \<Rightarrow> string + string"
  basename :: "string \<Rightarrow> string"
  sendMail :: "mail_options \<Rightarrow> string option"
  verify :: "string option"
  email_from :: string
  email_recipients :: "string list"

text \<open>The pass rate, as both \<^verbatim>\<open>generateSubject\<close> and \<^verbatim>\<open>generateHtmlReport\<close> compute it.\<close>

definition passRate :: "TestResultSummary \<Rightarrow> jsnum" where
  "passRate s = Math_round (js_times (js_divide (of_nat (passed s)) (of_nat (totalTests s))) 100)"

definition generateSubject :: "TestResultSummary \<Rightarrow> string" where
  "generateSubject s =
     (if failed s > 0 then cross_mark @ '' FAILED'' else check_mark @ '' PASSED'')
     @ '' | Test Report | '' @ Number_toString (passRate s) @ ''% Pass Rate | ''
     @ toUpperCase (environment s) @ '' | '' @ show_nat (totalTests s) @ '' Tests''"

definition getStatusColor :: "jsval \<Rightarrow> string" where
  "getStatusColor st =
     (if st = Val (JStr ''passed'') then ''#28a745''
      else if st = Val (JStr ''failed'') then ''#dc3545''
      else if st = Val (JStr ''skipped'') then ''#856404''
      else ''#666'')"

definition getStatusEmoji :: "jsval \<Rightarrow> string" where
  "getStatusEmoji st =
     (if st = Val (JStr ''passed'') then check_mark
      else if st = Val (JStr ''failed'') then cross_mark
      else if st = Val (JStr ''skipped'') then skip_mark
      else question_mark)"

text \<open>
  \<^verbatim>\<open>`${v}`\<close> of a value, and \<^verbatim>\<open>test.status.toUpperCase()\<close>: the method exists on
  strings only, and \<^verbatim>\<open>undefined\<close> and \<^verbatim>\<open>null\<close> have no properties at all. The
  messages are the engine's.
\<close>

definition js_to_string :: "email_env \<Rightarrow> jsval \<Rightarrow> error + string" where
  "js_to_string env v =
     (case v of
        Undefined \<Rightarrow> Inr ''undefined''
      | Val j \<Rightarrow> (case String_conv env j of Inl msg \<Rightarrow> Inl (TypeError msg) | Inr s \<Rightarrow> Inr s)
      | Native \<Rightarrow> Inr ''function () { [native code] }'')"

definition js_toUpperCase :: "jsval \<Rightarrow> error + string" where
  "js_toUpperCase v =
     (case v of
        Val (JStr s) \<Rightarrow> Inr (toUpperCase s)
      | Undefined \<Rightarrow>
          Inl (TypeError ''Cannot read properties of undefined (reading 'toUpperCase')'')
      | Val JNull \<Rightarrow>
          Inl (TypeError ''Cannot read properties of null (reading 'toUpperCase')'')
      | _ \<Rightarrow> Inl (TypeError ''test.status.toUpperCase is not a function''))"

definition iso_date :: "email_env \<Rightarrow> int option \<Rightarrow> error + string" where
  "iso_date env d =
     (case d of
        None \<Rightarrow> Inl (RangeError ''Invalid time value'')
      | Some ms \<Rightarrow> Inr (toISOString env ms))"

definition test_row :: "email_env \<Rightarrow> TestResult \<Rightarrow> error + string" where
  \<open>test_row env test =
     (case js_toUpperCase (TestResult.status test) of
        Inl e \<Rightarrow> Inl e
      | Inr upper \<Rightarrow>
          (case js_to_string env (TestResult.duration test) of
             Inl e \<Rightarrow> Inl e
           | Inr dur \<Rightarrow>
               Inr (CHR 10 # ''      <tr>'' @
                    CHR 10 # ''        <td style="padding: 8px; border-bottom: 1px solid #ddd;">'' @ name test @ ''</td>'' @
                    CHR 10 # ''        <td style="padding: 8px; border-bottom: 1px solid #ddd; text-align: center;">'' @
                    CHR 10 # ''          <span style="color: '' @ getStatusColor (TestResult.status test) @ ''; font-weight: bold;">'' @
                    CHR 10 # ''            '' @ getStatusEmoji (TestResult.status test) @ '' '' @ upper @
                    CHR 10 # ''          </span>'' @
                    CHR 10 # ''        </td>'' @
                    CHR 10 # ''        <td style="padding: 8px; border-bottom: 1px solid #ddd; text-align: center;">'' @ dur @ ''ms</td>'' @
                    CHR 10 # ''        <td style="padding: 8px; border-bottom: 1px solid #ddd; color: #dc3545;">'' @ str_or (error test) ''-'' @ ''</td>'' @
                    CHR 10 # ''      </tr>'' @
                    CHR 10 # ''    '')))\<close>

fun test_rows :: "email_env \<Rightarrow> TestResult list \<Rightarrow> error + string" where
  "test_rows env [] = Inr []"
| "test_rows env (t # ts) =
     (case test_row env t of
        Inl e \<Rightarrow> Inl e
      | Inr r \<Rightarrow> (case test_rows env ts of Inl e \<Rightarrow> Inl e | Inr rs \<Rightarrow> Inr (r @ rs)))"

text \<open>
  \<^verbatim>\<open>generateHtmlReport\<close>. The template is the file at the fixed path when it exists, the
  built-in one otherwise. The thirteen global substitutions are applied in the order of
  the source (six before the pass rate, six after it), then the rows replace the first
  \<^verbatim>\<open>{{TEST_RESULTS_ROWS}}\<close>.
\<close>

definition substitute_head :: "string \<Rightarrow> EmailReportData \<Rightarrow> string" where
  "substitute_head template data =
     (let s = summary data
      in replace_all ''{{SKIPPED}}'' (show_nat (skipped s))
        (replace_all ''{{FAILED}}'' (show_nat (failed s))
        (replace_all ''{{PASSED}}'' (show_nat (passed s))
        (replace_all ''{{TOTAL_TESTS}}'' (show_nat (totalTests s))
        (replace_all ''{{ENVIRONMENT}}'' (toUpperCase (environment s))
        (replace_all ''{{PROJECT_NAME}}'' (str_or (projectName data) ''Playwright E2E Tests'')
           template))))))"

definition substitute_tail :: "string \<Rightarrow> EmailReportData \<Rightarrow> string \<Rightarrow> string \<Rightarrow> string" where
  "substitute_tail body data start end_iso =
     (let s = summary data;
          durationMinutes = Math_round (js_divide (TestResultSummary.duration s) 60000)
      in replace_all ''{{BUILD_URL}}'' (str_or (buildUrl data) ''#'')
        (replace_all ''{{STATUS_COLOR}}'' (if failed s > 0 then ''#dc3545'' else ''#28a745'')
        (replace_all ''{{STATUS_EMOJI}}'' (if failed s > 0 then cross_mark else check_mark)
        (replace_all ''{{END_TIME}}'' end_iso
        (replace_all ''{{START_TIME}}'' start
        (replace_all ''{{DURATION}}'' (Number_toString durationMinutes @ '' min'')
           body))))))"

definition substitute_summary ::
  "string \<Rightarrow> EmailReportData \<Rightarrow> string \<Rightarrow> string \<Rightarrow> string" where
  "substitute_summary template data start end_iso =
     substitute_tail
       (replace_all ''{{PASS_RATE}}'' (Number_toString (passRate (summary data)))
          (substitute_head template data))
       data start end_iso"

definition generateHtmlReport :: "email_env \<Rightarrow> EmailReportData \<Rightarrow> error + string" where
  "generateHtmlReport env data =
     (case (if existsSync env (templatePath env) then readFileSync env (templatePath env)
            else Inr getDefaultTemplate) of
        Inl msg \<Rightarrow> Inl (Thrown msg)
      | Inr template \<Rightarrow>
          (case iso_date env (startTime (summary data)) of
             Inl e \<Rightarrow> Inl e
           | Inr start \<Rightarrow>
               (case iso_date env (endTime (summary data)) of
                  Inl e \<Rightarrow> Inl e
                | Inr end_iso \<Rightarrow>
                    (case test_rows env (EmailReportData.tests data) of
                       Inl e \<Rightarrow> Inl e
                     | Inr testRows \<Rightarrow>
                         Inr (replace_first ''{{TEST_RESULTS_ROWS}}'' testRows
                                (substitute_summary template data start end_iso))))))"

definition prepareAttachments :: "email_env \<Rightarrow> string list option \<Rightarrow> (string \<times> string) list" where
  "prepareAttachments env attachmentPaths =
     (case attachmentPaths of
        None \<Rightarrow> []
      | Some paths \<Rightarrow> map (\<lambda>filePath. (basename env filePath, filePath)) (filter (existsSync env) paths))"

fun join_with :: "string \<Rightarrow> string list \<Rightarrow> string" where
  "join_with sep [] = []"
| "join_with sep [x] = x"
| "join_with sep (x # y # zs) = x @ sep @ join_with sep (y # zs)"

text \<open>
  What \<^verbatim>\<open>sendReport\<close> leaves behind: the mails handed to the transport and the lines
  logged. The body of the \<^verbatim>\<open>try\<close> block is \<open>send_body\<close>; \<open>sendReport\<close> is the
  \<^verbatim>\<open>try\<close>/\<^verbatim>\<open>catch\<close> around it.
\<close>

record mail_effects =
  mails :: "mail_options list"
  mail_log :: "(LogLevel \<times> string) list"

definition mail_log_line :: "LogLevel \<Rightarrow> string \<Rightarrow> mail_effects \<Rightarrow> mail_effects" where
  "mail_log_line lvl msg fx = fx\<lparr>mail_log := mail_log fx @ [(lvl, msg)]\<rparr>"

definition mail_options_for ::
  "email_env \<Rightarrow> EmailReportData \<Rightarrow> string list option \<Rightarrow> string \<Rightarrow> mail_options" where
  "mail_options_for env data attachmentPaths htmlContent =
     \<lparr>mail_from = email_from env,
      mail_to = join_with '', '' (email_recipients env),
      subject = generateSubject (summary data),
      html = htmlContent,
      attachments = prepareAttachments env attachmentPaths\<rparr>"

definition send_body ::
  "email_env \<Rightarrow> EmailReportData \<Rightarrow> string list option \<Rightarrow> mail_effects \<Rightarrow> (error + bool) \<times> mail_effects" where
  "send_body env data attachmentPaths fx =
     (let fx1 = mail_log_line INFO ''Preparing email report...'' fx
      in case generateHtmlReport env data of
           Inl e \<Rightarrow> (Inl e, fx1)
         | Inr htmlContent \<Rightarrow>
             (let mailOptions = mail_options_for env data attachmentPaths htmlContent;
                  fx2 = fx1\<lparr>mails := mails fx1 @ [mailOptions]\<rparr>
              in case sendMail env mailOptions of
                   Some msg \<Rightarrow> (Inl (Thrown msg), fx2)
                 | None \<Rightarrow>
                     (Inr True,
                      mail_log_line INFO (''Report sent to: '' @ join_with '', '' (email_recipients env)) fx2)))"

definition sendReport ::
  "email_env \<Rightarrow> EmailReportData \<Rightarrow> string list option \<Rightarrow> mail_effects \<Rightarrow> (error + bool) \<times> mail_effects" where
  "sendReport env data attachmentPaths fx =
     (case send_body env data attachmentPaths fx of
        (Inl e, fx1) \<Rightarrow>
          (Inr False, mail_log_line ERROR (''Failed to send email report: '' @ message_of e) fx1)
      | (Inr sent, fx1) \<Rightarrow> (Inr sent, fx1))"

section \<open>Notions the properties are stated with\<close>

subsection \<open>The executed entries of a report\<close>

text \<open>
  Independently of the parser: the entries of \<^verbatim>\<open>tests\<close> of every spec of a suite, in the
  order of a depth-first traversal (the specs of a suite before its nested suites), each
  with the title of its spec and its list of attempts (empty when \<^verbatim>\<open>results\<close> is
  absent); and the specs themselves, in the same order.
\<close>

definition attempts_of :: "spec_test \<Rightarrow> (string \<times> json) list list" where
  "attempts_of e = (case results e of None \<Rightarrow> [] | Some l \<Rightarrow> l)"

definition spec_entries :: "spec \<Rightarrow> (string \<times> (string \<times> json) list list) list" where
  "spec_entries sp = map (\<lambda>e. (title sp, attempts_of e)) (case spec.tests sp of None \<Rightarrow> [] | Some l \<Rightarrow> l)"

fun suite_entries :: "suite \<Rightarrow> (string \<times> (string \<times> json) list list) list"
and suites_entries :: "suite list \<Rightarrow> (string \<times> (string \<times> json) list list) list" where
  "suite_entries (Suite sps nested) =
     concat (map spec_entries (case sps of None \<Rightarrow> [] | Some l \<Rightarrow> l))
     @ (case nested of None \<Rightarrow> [] | Some l \<Rightarrow> suites_entries l)"
| "suites_entries [] = []"
| "suites_entries (s # l) = suite_entries s @ suites_entries l"

fun suite_specs :: "suite \<Rightarrow> spec list"
and suites_specs :: "suite list \<Rightarrow> spec list" where
  "suite_specs (Suite sps nested) =
     (case sps of None \<Rightarrow> [] | Some l \<Rightarrow> l) @ (case nested of None \<Rightarrow> [] | Some l \<Rightarrow> suites_specs l)"
| "suites_specs [] = []"
| "suites_specs (s # l) = suite_specs s @ suites_specs l"

definition has_attempts :: "string \<times> (string \<times> json) list list \<Rightarrow> bool" where
  "has_attempts e = (snd e \<noteq> [])"

definition one_entry :: "spec \<Rightarrow> bool" where
  "one_entry sp = (length (spec_entries sp) = 1)"

text \<open>
  One step of the traversal, and the condition under which it does not throw: the error
  text of the entry's last attempt can be computed.
\<close>

definition emit :: "(json \<Rightarrow> string + string) \<Rightarrow> string \<times> (string \<times> json) list list \<Rightarrow> TestResult list \<Rightarrow> error + TestResult list" where
  "emit toStr e acc =
     (case flatten_attempts toStr (fst e) (snd e) of
        Inl err \<Rightarrow> Inl err
      | Inr t \<Rightarrow> Inr (acc @ [t]))"

definition attempt_ok :: "(json \<Rightarrow> string + string) \<Rightarrow> string \<times> (string \<times> json) list list \<Rightarrow> bool" where
  "attempt_ok toStr e =
     (case error_text toStr (own_prop (snd e ! (length (snd e) - 1)) ''error'') of Inl err \<Rightarrow> False | Inr txt \<Rightarrow> True)"

subsection \<open>Occurrences of a pattern\<close>

text \<open>
  \<open>no_match_before lit cls pre s\<close>: in the text \<open>pre @ s\<close>, the pattern matches at no
  position inside \<open>pre\<close>. \<open>occurs_ci lit s\<close>: the literal occurs in \<open>s\<close>, letter case
  ignored.
\<close>

fun no_match_before :: "string \<Rightarrow> (char \<Rightarrow> bool) \<Rightarrow> string \<Rightarrow> string \<Rightarrow> bool" where
  "no_match_before lit cls [] s = True"
| "no_match_before lit cls (c # pre) s =
     (match_here lit cls (c # pre @ s) = None \<and> no_match_before lit cls pre s)"

fun occurs_ci :: "string \<Rightarrow> string \<Rightarrow> bool" where
  "occurs_ci lit [] = matches_ci lit []"
| "occurs_ci lit (c # cs) = (matches_ci lit (c # cs) \<or> occurs_ci lit cs)"

definition summary_counts :: "error + EmailReportData \<Rightarrow> (nat \<times> nat \<times> nat \<times> nat) option" where
  "summary_counts r =
     (case r of
        Inl e \<Rightarrow> None
      | Inr d \<Rightarrow> Some (totalTests (summary d), passed (summary d), failed (summary d), skipped (summary d)))"

section \<open>Example inputs\<close>

text \<open>
  Concrete reports, files and environments on which the properties below are
  instantiated. \<open>String_stub\<close> stands for the built-in \<^verbatim>\<open>String\<close> on the few values the
  examples convert.
\<close>

definition String_stub :: "json \<Rightarrow> string + string" where
  "String_stub v = (case v of JStr s \<Rightarrow> Inr s | _ \<Rightarrow> Inr ''[object Object]'')"

definition no_counts :: status_counts where
  "no_counts = \<lparr>n_passed = 0, n_failed = 0, n_skipped = 0\<rparr>"

definition retry_suite :: suite where
  "retry_suite =
     Suite (Some [\<lparr>title = ''login works'',
                   tests = Some [\<lparr>results = Some [[(''status'', JStr ''failed''), (''duration'', JNum 1200)],
                                                  [(''status'', JStr ''passed''), (''duration'', JNum 900)]]\<rparr>]\<rparr>])
           None"

definition two_project_suite :: suite where
  "two_project_suite =
     Suite (Some [\<lparr>title = ''login works'',
                   tests = Some [\<lparr>results = Some [[(''status'', JStr ''passed'')]]\<rparr>,
                                 \<lparr>results = Some [[(''status'', JStr ''failed'')]]\<rparr>]\<rparr>])
           None"

definition sparse_suites :: "suite list" where
  "sparse_suites =
     [Suite (Some [\<lparr>title = ''never ran'', tests = Some [\<lparr>results = Some []\<rparr>]\<rparr>,
                   \<lparr>title = ''no results'', tests = Some [\<lparr>results = None\<rparr>]\<rparr>])
            (Some [Suite (Some [\<lparr>title = ''nested'', tests = Some [\<lparr>results = Some [[(''status'', JStr ''skipped'')]]\<rparr>]\<rparr>]) None])]"

definition nested_suites :: "suite list" where
  "nested_suites =
     [Suite (Some [\<lparr>title = ''login works'', tests = Some [\<lparr>results = Some [[(''status'', JStr ''passed'')]]\<rparr>]\<rparr>])
            (Some [Suite (Some [\<lparr>title = ''logout works'',
                                 tests = Some [\<lparr>results = Some [[(''status'', JStr ''failed'')],
                                                                  [(''status'', JStr ''failed'')]]\<rparr>]\<rparr>])
                         None])]"

definition timedOut_report :: report where
  "timedOut_report =
     \<lparr>report_suites =
        Some [Suite (Some [\<lparr>title = ''checkout completes'',
                           tests = Some [\<lparr>results = Some [[(''status'', JStr ''timedOut''),
                                                            (''duration'', JNum 60000)]]\<rparr>]\<rparr>])
                    None],
      stats_duration = Some 60000,
      stats_startTime = None,
      stats_endTime = None,
      project_name = Some ''chromium''\<rparr>"

definition timedOut_env :: report_env where
  "timedOut_env =
     \<lparr>existsSync = (\<lambda>p. p = ''reports/test-results.json''),
      readFileSync = (\<lambda>p. Inr ''report''),
      parse_report = (\<lambda>content. Inr timedOut_report),
      String_of = String_stub,
      Date_parse = (\<lambda>s. None),
      Date_now = 0,
      testEnv = ''qa'',
      CI_JOB_URL = None,
      BUILD_URL = None\<rparr>"

definition users_parse :: "string \<Rightarrow> string + (string \<times> json) list" where
  \<open>users_parse content =
     (if content = ''{"validUsers":[{"username":"a"}]}''
      then Inr [(''validUsers'', JArr [JObj [(''username'', JStr ''a'')]])]
      else if content = ''{"validUsers":null}''
      then Inr [(''validUsers'', JNull)]
      else if content = ''{"validUsers":"a,b"}''
      then Inr [(''validUsers'', JStr ''a,b'')]
      else Inl ''Unexpected token'')\<close>

definition users_env :: "string \<Rightarrow> ((string \<times> json) list) loader_env" where
  "users_env content =
     \<lparr>existsSync = (\<lambda>p. p = ''test-data/json/users.json''),
      readFileSync = (\<lambda>p. Inr content),
      JSON_parse = users_parse,
      YAML_parse = users_parse,
      path_join = (\<lambda>dir file. dir @ ''/'' @ file),
      DATA_DIRS = (\<lambda>f. case f of Json \<Rightarrow> ''test-data/json'' | Yaml \<Rightarrow> ''test-data/yaml''),
      getDataFormat = Json\<rparr>"

definition falsy_record :: "(string \<times> json) list" where
  "falsy_record = [(''a'', JNull), (''b'', JBool False), (''c'', JNum 0), (''d'', JStr []), (''e'', JNum 7)]"

definition falsy_env :: "((string \<times> json) list) loader_env" where
  "falsy_env =
     \<lparr>existsSync = (\<lambda>p. True),
      readFileSync = (\<lambda>p. Inr ''data''),
      JSON_parse = (\<lambda>content. Inr falsy_record),
      YAML_parse = (\<lambda>content. Inr falsy_record),
      path_join = (\<lambda>dir file. dir @ ''/'' @ file),
      DATA_DIRS = (\<lambda>f. case f of Json \<Rightarrow> ''test-data/json'' | Yaml \<Rightarrow> ''test-data/yaml''),
      getDataFormat = Yaml\<rparr>"

definition no_effects :: effects where
  "no_effects = \<lparr>requests = [], logged = []\<rparr>"

definition failed_login_result :: TestExecutionResult where
  "failed_login_result =
     \<lparr>squashId = ''CAMP-4-TC-101'', status = FAILED, comment = Some ''login rejected'',
      screenshotPath = Some ''shots/login.png'', duration = Some 1500,
      iterationIndex = Some 0, iterationData = None\<rparr>"

definition online_env :: squash_env where
  "online_env =
     \<lparr>existsSync = (\<lambda>p. False),
      readFileSync = (\<lambda>p. Inl ''ENOENT''),
      request = (\<lambda>r. None),
      base64 = (\<lambda>b. b),
      now_iso = ''2024-01-01T00:00:00.000Z'',
      now_ms = 1704067200000\<rparr>"

definition small_template :: string where
  "small_template = ''<p>{{PASS_RATE}}% of {{TOTAL_TESTS}} passed</p>{{TEST_RESULTS_ROWS}}''"

definition mail_env :: "bool \<Rightarrow> string option \<Rightarrow> email_env" where
  "mail_env has_template outcome =
     \<lparr>existsSync = (\<lambda>p. has_template \<and> p = ''templates/email-report.html''),
      readFileSync = (\<lambda>p. Inr small_template),
      templatePath = ''templates/email-report.html'',
      toISOString = (\<lambda>ms. ''2024-01-01T00:00:00.000Z''),
      String_conv = String_stub,
      basename = (\<lambda>p. p),
      sendMail = (\<lambda>m. outcome),
      verify = None,
      email_from = ''test-reports@example.com'',
      email_recipients = [''qa@example.com'', ''dev@example.com'']\<rparr>"

definition report_data :: "nat \<Rightarrow> nat \<Rightarrow> nat \<Rightarrow> EmailReportData" where
  "report_data n_pass n_fail n_total =
     \<lparr>summary = \<lparr>totalTests = n_total, passed = n_pass, failed = n_fail, skipped = 0,
                  duration = 90000, startTime = Some 0, endTime = Some 90000,
                  environment = ''qa'', browserName = Some ''chromium''\<rparr>,
      tests = [],
      projectName = None,
      buildUrl = None\<rparr>"

definition no_mail :: mail_effects where
  "no_mail = \<lparr>mails = [], mail_log = []\<rparr>"

definition invalid_date_data :: EmailReportData where
  "invalid_date_data =
     \<lparr>summary = \<lparr>totalTests = 1, passed = 1, failed = 0, skipped = 0,
                  duration = 1000, startTime = None, endTime = Some 1000,
                  environment = ''qa'', browserName = Some ''chromium''\<rparr>,
      tests = [],
      projectName = None,
      buildUrl = None\<rparr>"

section \<open>Verified properties\<close>

subsection \<open>The parser as a traversal of the executed entries\<close>

lemma each_append:
  "each body (xs @ ys) s = (case each body xs s of Inl e \<Rightarrow> Inl e | Inr s' \<Rightarrow> each body ys s')"
  by (induction xs arbitrary: s) (auto split: sum.splits)

lemma parse_test_emit:
  "parse_test toStr t e acc =
     each (emit toStr) (filter has_attempts [(t, attempts_of e)]) acc"
  by (auto simp: parse_test_def emit_def has_attempts_def attempts_of_def split: option.splits sum.splits)

lemma each_parse_test:
  "each (parse_test toStr t) es acc =
     each (emit toStr) (filter has_attempts (map (\<lambda>e. (t, attempts_of e)) es)) acc"
proof (induction es arbitrary: acc)
  case Nil
  then show ?case by simp
next
  case (Cons e es)
  have "each (emit toStr) (filter has_attempts (map (\<lambda>e. (t, attempts_of e)) (e # es))) acc =
        each (emit toStr) (filter has_attempts [(t, attempts_of e)] @ filter has_attempts (map (\<lambda>e. (t, attempts_of e)) es)) acc"
    by simp
  also have "\<dots> = (case parse_test toStr t e acc of Inl err \<Rightarrow> Inl err
                    | Inr s' \<Rightarrow> each (emit toStr) (filter has_attempts (map (\<lambda>e. (t, attempts_of e)) es)) s')"
    unfolding each_append parse_test_emit ..
  finally show ?case using Cons.IH by (simp split: sum.splits)
qed

lemma parse_spec_emit:
  "parse_spec toStr sp acc = each (emit toStr) (filter has_attempts (spec_entries sp)) acc"
  by (simp add: parse_spec_def spec_entries_def each_parse_test split: option.splits)

lemma each_parse_spec:
  "each (parse_spec toStr) sps acc =
     each (emit toStr) (filter has_attempts (concat (map spec_entries sps))) acc"
proof (induction sps arbitrary: acc)
  case Nil
  then show ?case by simp
next
  case (Cons sp sps)
  have "each (emit toStr) (filter has_attempts (concat (map spec_entries (sp # sps)))) acc =
        (case parse_spec toStr sp acc of Inl err \<Rightarrow> Inl err
         | Inr s' \<Rightarrow> each (emit toStr) (filter has_attempts (concat (map spec_entries sps))) s')"
    by (simp add: each_append parse_spec_emit)
  then show ?case using Cons.IH by (simp split: sum.splits)
qed

lemma parseTestSuite_emit:
  "parseTestSuite toStr s acc counts =
     each (emit toStr) (filter has_attempts (suite_entries s)) acc"
  and parseNestedSuites_emit:
  "parseNestedSuites toStr ss acc counts =
     each (emit toStr) (filter has_attempts (suites_entries ss)) acc"
proof (induction toStr s acc counts and toStr ss acc counts rule: parseTestSuite_parseNestedSuites.induct)
  case (1 toStr sps nestedSuites acc counts)
  show ?case
    using 1
    by (auto simp: each_append each_parse_spec split: sum.splits option.splits)
next
  case (2 toStr acc counts)
  then show ?case by simp
next
  case (3 toStr nestedSuite l acc counts)
  then show ?case
    by (auto simp: each_append split: sum.splits)
qed

lemma flatten_attempts_Inr:
  assumes "flatten_attempts toStr t attempts = Inr r" and "attempts \<noteq> []"
  shows "name r = t"
    and "TestResult.status r = own_prop (last attempts) ''status''"
    and "TestResult.duration r = or_zero (own_prop (last attempts) ''duration'')"
    and "retries r = length attempts - 1"
  using assms by (auto simp: flatten_attempts_def Let_def last_conv_nth split: sum.splits)

lemma emit_Inr:
  "emit toStr e acc = Inr ts \<longleftrightarrow> (\<exists>t. flatten_attempts toStr (fst e) (snd e) = Inr t \<and> ts = acc @ [t])"
  by (auto simp: emit_def split: sum.splits)

lemma each_Cons_Inr:
  "each body (x # xs) s = Inr r \<longleftrightarrow> (\<exists>s'. body x s = Inr s' \<and> each body xs s' = Inr r)"
  by (auto split: sum.splits)

lemma each_emit_length:
  "each (emit toStr) es acc = Inr ts \<Longrightarrow> length ts = length acc + length es"
proof (induction es arbitrary: acc)
  case Nil
  then show ?case by simp
next
  case (Cons e es)
  from Cons.prems obtain t where "each (emit toStr) es (acc @ [t]) = Inr ts"
    unfolding each_Cons_Inr emit_Inr by blast
  from Cons.IH [OF this] show ?case by simp
qed

lemma each_emit_prefix:
  "each (emit toStr) es acc = Inr ts \<Longrightarrow> take (length acc) ts = acc"
proof (induction es arbitrary: acc)
  case Nil
  then show ?case by simp
next
  case (Cons e es)
  then obtain t where t: "flatten_attempts toStr (fst e) (snd e) = Inr t"
    and rest: "each (emit toStr) es (acc @ [t]) = Inr ts"
    unfolding each_Cons_Inr emit_Inr by blast
  from Cons.IH [OF rest] have "take (length acc) (take (length (acc @ [t])) ts) = take (length acc) (acc @ [t])"
    by simp
  then show ?case by (simp add: min_def)
qed

lemma each_emit_nth:
  "each (emit toStr) es acc = Inr ts \<Longrightarrow> i < length es \<Longrightarrow>
     flatten_attempts toStr (fst (es ! i)) (snd (es ! i)) = Inr (ts ! (length acc + i))"
proof (induction es arbitrary: acc i)
  case Nil
  then show ?case by simp
next
  case (Cons e es)
  from Cons.prems(1) obtain t where t: "flatten_attempts toStr (fst e) (snd e) = Inr t"
    and rest: "each (emit toStr) es (acc @ [t]) = Inr ts"
    unfolding each_Cons_Inr emit_Inr by blast
  show ?case
  proof (cases i)
    case 0
    from each_emit_prefix [OF rest] have "take (Suc (length acc)) ts = acc @ [t]" by simp
    then have "ts ! length acc = (acc @ [t]) ! length acc"
      by (metis lessI nth_take)
    with t 0 show ?thesis by simp
  next
    case (Suc j)
    with Cons.prems(2) have "j < length es" by simp
    from Cons.IH [OF rest this] Suc show ?thesis by simp
  qed
qed

lemma each_emit_ok:
  "list_all (attempt_ok toStr) es \<Longrightarrow> \<exists>ts. each (emit toStr) es acc = Inr ts"
proof (induction es arbitrary: acc)
  case Nil
  then show ?case by simp
next
  case (Cons e es)
  then have e: "attempt_ok toStr e" and es: "list_all (attempt_ok toStr) es" by simp_all
  from e obtain t where "flatten_attempts toStr (fst e) (snd e) = Inr t"
    by (auto simp: attempt_ok_def flatten_attempts_def Let_def split: sum.splits)
  moreover from Cons.IH [OF es] obtain ts where "each (emit toStr) es (acc @ [t]) = Inr ts"
    by blast
  ultimately show ?case unfolding each_Cons_Inr emit_Inr by blast
qed

lemma suite_entries_specs:
  "suite_entries s = concat (map spec_entries (suite_specs s))"
  "suites_entries ss = concat (map spec_entries (suites_specs ss))"
  by (induction s and ss rule: suite_entries_suites_entries.induct) (auto split: option.splits)

lemma concat_one_entry:
  "list_all one_entry sps \<Longrightarrow> length (concat (map spec_entries sps)) = length sps"
  by (induction sps) (auto simp: one_entry_def)

subsection \<open>C1: the last attempt decides\<close>

lemma or_zero_number: "or_zero (Val (JNum d)) = Val (JNum d)"
  by (simp add: or_zero_def)

lemma or_zero_absent: "or_zero Undefined = Val (JNum 0)"
  by (simp add: or_zero_def)

text \<open>
  The error text never throws when the attempt has no error, or an error object whose
  message is a string.
\<close>

lemma error_text_absent: "error_text toStr Undefined = Inr None"
  by (simp add: error_text_def)

lemma error_text_message:
  "map_of kvs ''message'' = Some (JStr m) \<Longrightarrow> m \<noteq> [] \<Longrightarrow>
     error_text toStr (Val (JObj kvs)) = Inr (Some (substring_0 200 m))"
  by (simp add: error_text_def own_prop_def)

text \<open>On ASCII text the units are the bytes.\<close>

lemma substring_0_ascii:
  "list_all (\<lambda>c. (of_char c :: nat) < 128) s \<Longrightarrow> substring_0 n s = take n s"
proof (induction n arbitrary: s)
  case 0
  show ?case by simp
next
  case (Suc n)
  show ?case
  proof (cases s)
    case Nil
    then show ?thesis by simp
  next
    case (Cons c cs)
    with Suc.prems have c: "(of_char c :: nat) < 192" and cs: "list_all (\<lambda>c. (of_char c :: nat) < 128) cs"
      by simp_all
    from Suc.IH [OF cs] c show ?thesis
      unfolding Cons by simp
  qed
qed

text \<open>
  A cut inside a surrogate pair: the first unit of \<^verbatim>\<open>a\<close> followed by U+1F600 is
  \<^verbatim>\<open>a\<close>, the first two units end with the high surrogate D83D, and three units are
  the whole text.
\<close>

lemma substring_0_surrogate_1:
  "substring_0 1 [CHR ''a'', CHR 0xF0, CHR 0x9F, CHR 0x98, CHR 0x80] = ''a''"
  by (simp add: eval_nat_numeral)

lemma substring_0_surrogate_2:
  "substring_0 2 [CHR ''a'', CHR 0xF0, CHR 0x9F, CHR 0x98, CHR 0x80] =
       [CHR ''a'', CHR 0xED, CHR 0xA0, CHR 0xBD]"
proof -
  have "substring_0 (Suc (Suc 0)) [CHR ''a'', CHR 0xF0, CHR 0x9F, CHR 0x98, CHR 0x80] =
       [CHR ''a'', CHR 0xED, CHR 0xA0, CHR 0xBD]"
    by (simp add: char_of_def bit_0)
  then show ?thesis by (simp only: numeral_2_eq_2)
qed

lemma substring_0_surrogate_3:
  "substring_0 3 [CHR ''a'', CHR 0xF0, CHR 0x9F, CHR 0x98, CHR 0x80] =
       [CHR ''a'', CHR 0xF0, CHR 0x9F, CHR 0x98, CHR 0x80]"
  by (simp add: numeral_3_eq_3)

text \<open>
  Claim C1. \<open>suite_entries s\<close> lists, in traversal order, every entry of a spec's
  \<^verbatim>\<open>tests\<close> with the spec's title and the entry's attempts. For the \<open>i\<close>-th entry that
  has at least one attempt, and provided no error text of an executed entry throws, the
  parser returns, and the result it appended for that entry has the status of the last
  attempt, the duration of the last attempt (\<^verbatim>\<open>|| 0\<close>, which leaves every number as it
  is), and as retry count the number of attempts minus one.
\<close>

theorem last_attempt_wins:
  assumes ok: "list_all (attempt_ok toStr) (filter has_attempts (suite_entries s))"
      and i: "i < length (filter has_attempts (suite_entries s))"
      and e: "filter has_attempts (suite_entries s) ! i = (t, attempts)"
  shows "\<exists>ts. parseTestSuite toStr s acc counts = Inr ts
           \<and> length ts = length acc + length (filter has_attempts (suite_entries s))
           \<and> attempts \<noteq> []
           \<and> name (ts ! (length acc + i)) = t
           \<and> TestResult.status (ts ! (length acc + i)) = own_prop (last attempts) ''status''
           \<and> TestResult.duration (ts ! (length acc + i)) = or_zero (own_prop (last attempts) ''duration'')
           \<and> retries (ts ! (length acc + i)) = length attempts - 1"
proof -
  let ?es = "filter has_attempts (suite_entries s)"
  from each_emit_ok [OF ok] obtain ts where ts: "each (emit toStr) ?es acc = Inr ts"
    by blast
  have ne: "attempts \<noteq> []"
  proof -
    from i have "?es ! i \<in> set ?es" by (rule nth_mem)
    then have "has_attempts (?es ! i)" by simp
    with e show ?thesis by (simp add: has_attempts_def)
  qed
  from each_emit_nth [OF ts i] e
  have fl: "flatten_attempts toStr t attempts = Inr (ts ! (length acc + i))" by simp
  from flatten_attempts_Inr [OF fl ne] ts ne each_emit_length [OF ts] show ?thesis
    by (simp add: parseTestSuite_emit)
qed

text \<open>
  The attempts \<^verbatim>\<open>[{status: failed}, {status: passed}]\<close> flatten to \<^verbatim>\<open>status = passed\<close>,
  \<^verbatim>\<open>retries = 1\<close>.
\<close>

lemma retry_entries:
  "filter has_attempts (suite_entries retry_suite) =
     [(''login works'', [[(''status'', JStr ''failed''), (''duration'', JNum 1200)],
                         [(''status'', JStr ''passed''), (''duration'', JNum 900)]])]"
  by (simp add: retry_suite_def spec_entries_def attempts_of_def has_attempts_def)

theorem last_attempt_wins_witness:
  "list_all (attempt_ok String_stub) (filter has_attempts (suite_entries retry_suite))
   \<and> (0::nat) < length (filter has_attempts (suite_entries retry_suite))
   \<and> (\<exists>ts. parseTestSuite String_stub retry_suite [] no_counts = Inr ts
          \<and> length ts = 1
          \<and> name (ts ! 0) = ''login works''
          \<and> TestResult.status (ts ! 0) = Val (JStr ''passed'')
          \<and> TestResult.duration (ts ! 0) = Val (JNum 900)
          \<and> retries (ts ! 0) = 1)"
proof -
  have ok: "list_all (attempt_ok String_stub) (filter has_attempts (suite_entries retry_suite))"
    by (simp add: retry_entries attempt_ok_def error_text_def own_prop_def)
  have i: "(0::nat) < length (filter has_attempts (suite_entries retry_suite))"
    by (simp add: retry_entries)
  have e: "filter has_attempts (suite_entries retry_suite) ! 0 =
             (''login works'', [[(''status'', JStr ''failed''), (''duration'', JNum 1200)],
                                 [(''status'', JStr ''passed''), (''duration'', JNum 900)]])"
    by (simp add: retry_entries)
  from last_attempt_wins [OF ok i e, of "[]" no_counts] ok i show ?thesis
    by (simp add: retry_entries own_prop_def or_zero_def)
qed

subsection \<open>C2: how many results the parser emits\<close>

text \<open>
  Claim C2, as amended. The parser emits exactly one result per entry of \<^verbatim>\<open>spec.tests\<close>
  that has at least one attempt (an entry with no attempts adds nothing and raises
  nothing), so a report whose specs each hold exactly one entry, every one with at least
  one attempt, yields as many results as it has specs.
\<close>

theorem one_result_per_executed_entry:
  assumes ok: "list_all (attempt_ok toStr) (filter has_attempts (suites_entries ss))"
  shows "\<exists>ts. parseNestedSuites toStr ss [] counts = Inr ts
           \<and> length ts = length (filter has_attempts (suites_entries ss))
           \<and> (list_all has_attempts (suites_entries ss) \<and> list_all one_entry (suites_specs ss)
                \<longrightarrow> length ts = length (suites_specs ss))"
proof -
  from each_emit_ok [OF ok] obtain ts where ts: "each (emit toStr) (filter has_attempts (suites_entries ss)) [] = Inr ts"
    by blast
  have len: "length ts = length (filter has_attempts (suites_entries ss))"
    using each_emit_length [OF ts] by simp
  have "length ts = length (suites_specs ss)"
    if all: "list_all has_attempts (suites_entries ss)" and one: "list_all one_entry (suites_specs ss)"
  proof -
    from all have "filter has_attempts (suites_entries ss) = suites_entries ss"
      by (simp add: list_all_iff)
    with len concat_one_entry [OF one] show ?thesis
      by (simp add: suite_entries_specs(2))
  qed
  with ts len show ?thesis
    by (simp add: parseNestedSuites_emit)
qed

lemma nested_suites_entries:
  "suites_entries nested_suites =
     [(''login works'', [[(''status'', JStr ''passed'')]]),
      (''logout works'', [[(''status'', JStr ''failed'')], [(''status'', JStr ''failed'')]])]"
  by (simp add: nested_suites_def spec_entries_def attempts_of_def)

lemma nested_suites_specs: "length (suites_specs nested_suites) = 2"
  by (simp add: nested_suites_def)

theorem one_result_per_executed_entry_witness:
  "list_all (attempt_ok String_stub) (filter has_attempts (suites_entries nested_suites))
   \<and> list_all has_attempts (suites_entries nested_suites)
   \<and> list_all one_entry (suites_specs nested_suites)
   \<and> length (suites_specs nested_suites) = 2
   \<and> (\<exists>ts. parseNestedSuites String_stub nested_suites [] no_counts = Inr ts \<and> length ts = 2)"
proof -
  have all: "list_all has_attempts (suites_entries nested_suites)"
    by (simp add: nested_suites_entries has_attempts_def)
  have ok: "list_all (attempt_ok String_stub) (filter has_attempts (suites_entries nested_suites))"
    by (simp add: nested_suites_entries has_attempts_def attempt_ok_def error_text_def own_prop_def)
  have one: "list_all one_entry (suites_specs nested_suites)"
    by (simp add: nested_suites_def one_entry_def spec_entries_def)
  from one_result_per_executed_entry [OF ok, of no_counts] all one ok nested_suites_specs
  show ?thesis by auto
qed

text \<open>Three specs, two of them never executed: one result, no error.\<close>

lemma zero_attempt_entries_are_skipped:
  "length (suites_specs sparse_suites) = 3
   \<and> parseNestedSuites String_stub sparse_suites [] no_counts =
       Inr [\<lparr>name = ''nested'', status = Val (JStr ''skipped''), duration = Val (JNum 0),
              error = None, retries = 0\<rparr>]"
  by (simp add: sparse_suites_def parse_spec_def parse_test_def flatten_attempts_def
      error_text_def own_prop_def or_zero_def)

text \<open>
  One spec that ran in two projects (two entries of \<^verbatim>\<open>tests\<close>, one attempt each): the
  report has one spec, every entry has an attempt, and the parser emits two results.
\<close>

theorem spec_count_counterexample:
  "length (suite_specs two_project_suite) = 1
   \<and> list_all has_attempts (suite_entries two_project_suite)
   \<and> parseTestSuite String_stub two_project_suite [] no_counts =
       Inr [\<lparr>name = ''login works'', status = Val (JStr ''passed''), duration = Val (JNum 0),
              error = None, retries = 0\<rparr>,
            \<lparr>name = ''login works'', status = Val (JStr ''failed''), duration = Val (JNum 0),
              error = None, retries = 0\<rparr>]"
  by (simp add: two_project_suite_def spec_entries_def attempts_of_def has_attempts_def
      parse_spec_def parse_test_def flatten_attempts_def error_text_def own_prop_def or_zero_def)

subsection \<open>C3: the summary counts\<close>

text \<open>
  Claim C3 at a report whose only test timed out (\<^verbatim>\<open>status: "timedOut"\<close>, one of the
  statuses the test runner writes): the summary has \<^verbatim>\<open>totalTests = 1\<close> and
  \<^verbatim>\<open>passed = failed = skipped = 0\<close>.
\<close>

theorem timedOut_result_is_counted_nowhere:
  "summary_counts (parsePlaywrightReport timedOut_env ''reports/test-results.json'') = Some (1, 0, 0, 0)"
  by (simp add: summary_counts_def parsePlaywrightReport_def timedOut_env_def timedOut_report_def
      parse_spec_def parse_test_def flatten_attempts_def error_text_def own_prop_def or_zero_def
      count_results_def count_result_def Let_def)

text \<open>
  What the counting loop does guarantee: the three counters add up to the number of
  results whose status is one of the three strings of the \<^verbatim>\<open>switch\<close>.
\<close>

lemma count_result_sum:
  "n_passed (count_result c t) + n_failed (count_result c t) + n_skipped (count_result c t) =
     n_passed c + n_failed c + n_skipped c +
     (if TestResult.status t \<in> {Val (JStr ''passed''), Val (JStr ''failed''), Val (JStr ''skipped'')} then 1 else 0)"
  by (simp add: count_result_def)

lemma foldl_count_result_sum:
  "n_passed (foldl count_result c ts) + n_failed (foldl count_result c ts) + n_skipped (foldl count_result c ts) =
     n_passed c + n_failed c + n_skipped c +
     length (filter (\<lambda>t. TestResult.status t \<in> {Val (JStr ''passed''), Val (JStr ''failed''), Val (JStr ''skipped'')}) ts)"
proof (induction ts arbitrary: c)
  case Nil
  then show ?case by simp
next
  case (Cons t ts)
  show ?case
    unfolding foldl_Cons Cons.IH count_result_sum by simp
qed

lemma counts_cover_known_statuses:
  "n_passed (count_results ts) + n_failed (count_results ts) + n_skipped (count_results ts) =
     length (filter (\<lambda>t. TestResult.status t \<in> {Val (JStr ''passed''), Val (JStr ''failed''), Val (JStr ''skipped'')}) ts)"
  by (simp add: count_results_def foldl_count_result_sum)

subsection \<open>C8: loading an array\<close>

lemma users_env_load:
  "loadTestData (users_env content) ''users'' None =
     (case users_parse content of
        Inl msg \<Rightarrow> Inl (ParseError ''JSON'' ''test-data/json/users.json'' msg)
      | Inr v \<Rightarrow> Inr v)"
  by (simp add: loadTestData_def data_file_path_def users_env_def extension_of_def format_upper_def split: sum.splits)

text \<open>
  Claim C8, as amended. Once the file is loaded, \<^verbatim>\<open>loadTestDataArray\<close> returns the
  elements when the read \<^verbatim>\<open>data[arrayKey]\<close> is an array; it fails with the missing-key
  error when the read is \<^verbatim>\<open>undefined\<close> or another falsy value, and with the
  not-an-array error when the read is truthy and not an array. In terms of the record's
  keys: a key bound to an array is returned, and a key that is absent (and not a member
  every object inherits) is reported missing.
\<close>

theorem loadTestDataArray_cases:
  assumes load: "loadTestData env filename None = Inr data"
  shows "(js_get data arrayKey = Val (JArr xs) \<longrightarrow> loadTestDataArray env filename arrayKey = Inr xs)
       \<and> (\<not> truthy (js_get data arrayKey) \<longrightarrow>
            loadTestDataArray env filename arrayKey = Inl (MissingKey arrayKey filename))
       \<and> (truthy (js_get data arrayKey) \<and> \<not> isArray (js_get data arrayKey) \<longrightarrow>
            loadTestDataArray env filename arrayKey = Inl (NotAnArray arrayKey filename))
       \<and> (map_of data arrayKey = Some (JArr xs) \<longrightarrow> loadTestDataArray env filename arrayKey = Inr xs)
       \<and> (map_of data arrayKey = None \<and> arrayKey \<notin> set object_prototype_keys \<longrightarrow>
            loadTestDataArray env filename arrayKey = Inl (MissingKey arrayKey filename))"
proof -
  have 1: "js_get data arrayKey = Val (JArr xs) \<Longrightarrow> loadTestDataArray env filename arrayKey = Inr xs"
    by (simp add: loadTestDataArray_def load)
  have 2: "\<not> truthy (js_get data arrayKey) \<Longrightarrow>
            loadTestDataArray env filename arrayKey = Inl (MissingKey arrayKey filename)"
    by (simp add: loadTestDataArray_def load)
  have 3: "truthy (js_get data arrayKey) \<Longrightarrow> \<not> isArray (js_get data arrayKey) \<Longrightarrow>
            loadTestDataArray env filename arrayKey = Inl (NotAnArray arrayKey filename)"
    by (cases "js_get data arrayKey" rule: isArray.cases)
       (simp_all add: loadTestDataArray_def load)
  have 4: "map_of data arrayKey = Some (JArr xs) \<Longrightarrow> js_get data arrayKey = Val (JArr xs)"
    by (simp add: js_get_def)
  have 5: "map_of data arrayKey = None \<Longrightarrow> arrayKey \<notin> set object_prototype_keys \<Longrightarrow>
            \<not> truthy (js_get data arrayKey)"
    by (simp add: js_get_def)
  from 1 2 3 4 5 show ?thesis by blast
qed

theorem loadTestDataArray_cases_witness:
  "loadTestData (users_env ''{\"validUsers\":[{\"username\":\"a\"}]}'') ''users'' None =
      Inr [(''validUsers'', JArr [JObj [(''username'', JStr ''a'')]])]
   \<and> loadTestDataArray (users_env ''{\"validUsers\":[{\"username\":\"a\"}]}'') ''users'' ''validUsers'' =
      Inr [JObj [(''username'', JStr ''a'')]]
   \<and> loadTestDataArray (users_env ''{\"validUsers\":[{\"username\":\"a\"}]}'') ''users'' ''admins'' =
      Inl (MissingKey ''admins'' ''users'')
   \<and> loadTestDataArray (users_env ''{\"validUsers\":\"a,b\"}'') ''users'' ''validUsers'' =
      Inl (NotAnArray ''validUsers'' ''users'')"
proof -
  have a: "loadTestData (users_env ''{\"validUsers\":[{\"username\":\"a\"}]}'') ''users'' None =
      Inr [(''validUsers'', JArr [JObj [(''username'', JStr ''a'')]])]"
    by (simp add: users_env_load users_parse_def)
  have b: "loadTestData (users_env ''{\"validUsers\":\"a,b\"}'') ''users'' None =
      Inr [(''validUsers'', JStr ''a,b'')]"
    by (simp add: users_env_load users_parse_def)
  from loadTestDataArray_cases [OF a, of "''validUsers''" "[JObj [(''username'', JStr ''a'')]]"]
       loadTestDataArray_cases [OF a, of "''admins''" "[]"]
       loadTestDataArray_cases [OF b, of "''validUsers''" "[]"]
       a
  show ?thesis
    by (simp add: js_get_def object_prototype_keys_def)
qed

text \<open>
  A key bound to \<^verbatim>\<open>null\<close>: its value is not an array, yet the error is the missing-key
  error.
\<close>

theorem falsy_value_counterexample:
  "loadTestData (users_env ''{\"validUsers\":null}'') ''users'' None = Inr [(''validUsers'', JNull)]
   \<and> \<not> isArray (Val JNull)
   \<and> loadTestDataArray (users_env ''{\"validUsers\":null}'') ''users'' ''validUsers'' =
       Inl (MissingKey ''validUsers'' ''users'')"
  by (simp add: loadTestDataArray_def users_env_load users_parse_def js_get_def)

subsection \<open>C10: falsy values are reported as missing, inherited members as not arrays\<close>

text \<open>
  Claim C10, as amended. A key bound to \<^verbatim>\<open>null\<close>, \<^verbatim>\<open>false\<close>, \<^verbatim>\<open>0\<close> or the empty
  string fails with the missing-key error, not the not-an-array error. The not-an-array
  error (for this key and this file) is produced exactly in two cases: the key is present
  in the record and bound to a truthy value that is not an array; or the key is absent
  from the record and names a member every object inherits (\<^verbatim>\<open>toString\<close>,
  \<^verbatim>\<open>constructor\<close>, ...), which the read \<^verbatim>\<open>data[arrayKey]\<close> then yields.
\<close>

theorem falsy_value_is_missing_key:
  assumes load: "loadTestData env filename None = Inr data"
  shows "(map_of data arrayKey = Some v \<and> (v = JNull \<or> v = JBool False \<or> v = JNum 0 \<or> v = JStr [])
            \<longrightarrow> loadTestDataArray env filename arrayKey = Inl (MissingKey arrayKey filename)
                \<and> loadTestDataArray env filename arrayKey \<noteq> Inl (NotAnArray arrayKey filename))
       \<and> (loadTestDataArray env filename arrayKey = Inl (NotAnArray k f)
            \<longleftrightarrow> k = arrayKey \<and> f = filename
                \<and> (case map_of data arrayKey of
                      Some w \<Rightarrow> truthy (Val w) \<and> \<not> isArray (Val w)
                    | None \<Rightarrow> arrayKey \<in> set object_prototype_keys))"
proof -
  have 1: "loadTestDataArray env filename arrayKey = Inl (MissingKey arrayKey filename)"
    if "map_of data arrayKey = Some v" and "v = JNull \<or> v = JBool False \<or> v = JNum 0 \<or> v = JStr []"
    using that by (auto simp: loadTestDataArray_def load js_get_def)
  have 2: "loadTestDataArray env filename arrayKey = Inl (NotAnArray k f)
            \<longleftrightarrow> k = arrayKey \<and> f = filename \<and> truthy (Val w) \<and> \<not> isArray (Val w)"
    if "map_of data arrayKey = Some w" for w
    using that
    by (cases "Val w" rule: isArray.cases)
       (auto simp: loadTestDataArray_def load js_get_def split: if_splits)
  have 3: "loadTestDataArray env filename arrayKey = Inl (NotAnArray k f)
            \<longleftrightarrow> k = arrayKey \<and> f = filename \<and> arrayKey \<in> set object_prototype_keys"
    if "map_of data arrayKey = None"
    using that by (auto simp: loadTestDataArray_def load js_get_def split: if_splits)
  have 4: "loadTestDataArray env filename arrayKey = Inl (NotAnArray k f)
            \<longleftrightarrow> k = arrayKey \<and> f = filename
                \<and> (case map_of data arrayKey of
                      Some w \<Rightarrow> truthy (Val w) \<and> \<not> isArray (Val w)
                    | None \<Rightarrow> arrayKey \<in> set object_prototype_keys)"
    using 2 3 by (cases "map_of data arrayKey") simp_all
  from 1 have 5: "loadTestDataArray env filename arrayKey \<noteq> Inl (NotAnArray arrayKey filename)"
    if "map_of data arrayKey = Some v" and "v = JNull \<or> v = JBool False \<or> v = JNum 0 \<or> v = JStr []"
    using that by simp
  from 1 4 5 show ?thesis by blast
qed

theorem falsy_value_is_missing_key_witness:
  "loadTestData falsy_env ''flags'' None = Inr falsy_record
   \<and> loadTestDataArray falsy_env ''flags'' ''a'' = Inl (MissingKey ''a'' ''flags'')
   \<and> loadTestDataArray falsy_env ''flags'' ''b'' = Inl (MissingKey ''b'' ''flags'')
   \<and> loadTestDataArray falsy_env ''flags'' ''c'' = Inl (MissingKey ''c'' ''flags'')
   \<and> loadTestDataArray falsy_env ''flags'' ''d'' = Inl (MissingKey ''d'' ''flags'')
   \<and> loadTestDataArray falsy_env ''flags'' ''e'' = Inl (NotAnArray ''e'' ''flags'')
   \<and> map_of falsy_record ''e'' = Some (JNum 7)
   \<and> loadTestDataArray falsy_env ''flags'' ''g'' \<noteq> Inl (NotAnArray ''g'' ''flags'')
   \<and> map_of falsy_record ''g'' = None"
proof -
  have load: "loadTestData falsy_env ''flags'' None = Inr falsy_record"
    by (simp add: loadTestData_def falsy_env_def)
  from falsy_value_is_missing_key [OF load, of "''a''" JNull]
       falsy_value_is_missing_key [OF load, of "''b''" "JBool False"]
       falsy_value_is_missing_key [OF load, of "''c''" "JNum 0"]
       falsy_value_is_missing_key [OF load, of "''d''" "JStr []"]
       falsy_value_is_missing_key [OF load, of "''e''" _ "''e''" "''flags''"]
       falsy_value_is_missing_key [OF load, of "''g''" _ "''g''" "''flags''"]
       load
  show ?thesis
    by (simp add: falsy_record_def object_prototype_keys_def)
qed

text \<open>
  A record without the key \<^verbatim>\<open>toString\<close>: the key is not present, yet the read yields
  the inherited function and the error is the not-an-array error.
\<close>

theorem inherited_member_counterexample:
  "loadTestData falsy_env ''flags'' None = Inr falsy_record
   \<and> map_of falsy_record ''toString'' = None
   \<and> loadTestDataArray falsy_env ''flags'' ''toString'' = Inl (NotAnArray ''toString'' ''flags'')"
  by (simp add: loadTestDataArray_def loadTestData_def falsy_env_def falsy_record_def js_get_def
      object_prototype_keys_def)



subsection \<open>C6: identifier extraction\<close>

lemma regex_search_skip:
  "no_match_before lit cls pre s \<Longrightarrow> regex_search lit cls (pre @ s) = regex_search lit cls s"
  by (induction pre) auto

lemma matches_ci_self: "matches_ci lit (lit @ s)"
  by (induction lit) auto

lemma takeWhile_run:
  "list_all cls run \<Longrightarrow> rest = [] \<or> \<not> cls (hd rest) \<Longrightarrow> takeWhile cls (run @ rest) = run"
  by (induction run) (cases rest; auto)+

lemma match_here_literal:
  assumes "run \<noteq> []" and "list_all cls run" and "rest = [] \<or> \<not> cls (hd rest)"
  shows "match_here lit cls (lit @ run @ rest) = Some run"
  using assms by (simp add: match_here_def matches_ci_self takeWhile_run)

lemma regex_search_here:
  "match_here lit cls s = Some g \<Longrightarrow> regex_search lit cls s = Some g"
  by (cases s) auto

lemma regex_search_found:
  assumes "no_match_before lit cls pre (lit @ run @ rest)"
      and "run \<noteq> []" and "list_all cls run" and "rest = [] \<or> \<not> cls (hd rest)"
  shows "regex_search lit cls (pre @ lit @ run @ rest) = Some run"
  using assms by (simp add: regex_search_skip regex_search_here match_here_literal)

text \<open>
  A simple sufficient condition for the first match: no character before it is the
  first character of the literal (no \<^verbatim>\<open>@\<close> before the marker).
\<close>

lemma no_match_before_first_char:
  "list_all (\<lambda>c. toUpper c \<noteq> toUpper l) pre \<Longrightarrow> no_match_before (l # lit) cls pre s"
  by (induction pre) (auto simp: match_here_def)

lemma regex_search_none:
  "\<not> occurs_ci lit s \<Longrightarrow> regex_search lit cls s = None"
  by (induction s) (auto simp: match_here_def)

text \<open>
  Claim C6. A title in which the first match of the marker pattern is
  \<^verbatim>\<open>@squashTM:\<close> followed by the identifier (a non-empty run of letters, digits and
  hyphens that ends at the end of the title or at another character) yields that
  identifier; an identifier in which the first match of \<^verbatim>\<open>TC-\<close> with digits is
  \<^verbatim>\<open>TC-\<close> followed by the digits yields the digits; and a title in which the marker
  does not occur yields no identifier (\<open>None\<close>, the source's \<^verbatim>\<open>null\<close>). Both functions
  are total: no input raises an error.
\<close>

theorem squash_id_extraction:
  shows "(no_match_before ''@squashTM:'' is_id_char pre (''@squashTM:'' @ ident @ rest)
            \<and> ident \<noteq> [] \<and> list_all is_id_char ident \<and> (rest = [] \<or> \<not> is_id_char (hd rest))
          \<longrightarrow> parseSquashId (pre @ ''@squashTM:'' @ ident @ rest) = Some ident)
       \<and> (no_match_before ''TC-'' is_digit a (''TC-'' @ ds @ b)
            \<and> ds \<noteq> [] \<and> list_all is_digit ds \<and> (b = [] \<or> \<not> is_digit (hd b))
          \<longrightarrow> extractTestCaseId (a @ ''TC-'' @ ds @ b) = Some ds)
       \<and> (\<not> occurs_ci ''@squashTM:'' testTitle \<longrightarrow> parseSquashId testTitle = None)"
  unfolding parseSquashId_def extractTestCaseId_def
  using regex_search_found [of "''@squashTM:''" is_id_char pre ident rest]
        regex_search_found [of "''TC-''" is_digit a ds b]
        regex_search_none [of "''@squashTM:''" testTitle is_id_char]
  by blast

theorem squash_id_extraction_witness:
  "parseSquashId ''Some test @squashTM:CAMP-4-TC-101'' = Some ''CAMP-4-TC-101''
   \<and> extractTestCaseId ''CAMP-4-TC-101'' = Some ''101''
   \<and> parseSquashId ''Some test without a link'' = None"
proof -
  have 1: "no_match_before ''@squashTM:'' is_id_char ''Some test '' (''@squashTM:'' @ ''CAMP-4-TC-101'' @ [])"
    by code_simp
  have 2: "list_all is_id_char ''CAMP-4-TC-101''"
    by code_simp
  have 3: "no_match_before ''TC-'' is_digit ''CAMP-4-'' (''TC-'' @ ''101'' @ [])"
    by code_simp
  have 4: "list_all is_digit ''101''"
    by code_simp
  have 5: "\<not> occurs_ci ''@squashTM:'' ''Some test without a link''"
    by code_simp
  from squash_id_extraction [of "''Some test ''" "''CAMP-4-TC-101''" "[]" "''CAMP-4-''" "''101''" "[]"
        "''Some test without a link''"] 1 2 3 4 5
  show ?thesis by simp
qed

subsection \<open>C7: the disabled integration\<close>

text \<open>
  Claim C7. With the integration disabled, \<^verbatim>\<open>reportResult\<close> returns \<^verbatim>\<open>false\<close> for every
  result: it sends no request, raises no error, and only hands one debug line to the
  logger.
\<close>

theorem disabled_reportResult:
  assumes "\<not> enabled client"
  shows "fst (reportResult client env result fx) = Inr False
       \<and> requests (snd (reportResult client env result fx)) = requests fx
       \<and> logged (snd (reportResult client env result fx)) =
           logged fx @ [(DEBUG, ''Squash TM reporting is disabled'')]"
  using assms by (simp add: reportResult_def log_line_def)

theorem disabled_reportResult_witness:
  "\<not> enabled \<lparr>enabled = False, campaignId = ''4''\<rparr>
   \<and> reportResult \<lparr>enabled = False, campaignId = ''4''\<rparr> online_env failed_login_result no_effects =
       (Inr False, \<lparr>requests = [], logged = [(DEBUG, ''Squash TM reporting is disabled'')]\<rparr>)"
proof -
  have d: "\<not> enabled \<lparr>enabled = False, campaignId = ''4''\<rparr>" by simp
  from disabled_reportResult [OF d, of online_env failed_login_result no_effects] d
  show ?thesis
    by (cases "reportResult \<lparr>enabled = False, campaignId = ''4''\<rparr> online_env failed_login_result no_effects")
       (simp add: no_effects_def effects.equality)
qed

text \<open>With the integration enabled the same result is reported with one remote call.\<close>

lemma show_nat_1500: "show_nat 1500 = ''1500''" by code_simp

lemma show_nat_1: "show_nat (Suc 0) = ''1''" by code_simp

lemma extract_101: "extractTestCaseId ''CAMP-4-TC-101'' = Some ''101''" by code_simp

lemma failed_login_comment: "build_comment failed_login_result = ''[DDT Iteration 1] login rejected'' @ CHR 10 # ''Duration: 1500ms''"
  by (simp add: build_comment_def failed_login_result_def str_or_def show_nat_1500 show_nat_1)

lemma enabled_reportResult_example:
  "reportResult \<lparr>enabled = True, campaignId = ''4''\<rparr> online_env failed_login_result no_effects =
     (Inr True,
      \<lparr>requests = [PATCH ''/iterations/101/test-plan'' FAILED
                      (''[DDT Iteration 1] login rejected'' @ CHR 10 # ''Duration: 1500ms'')
                      ''2024-01-01T00:00:00.000Z''],
       logged = [(INFO, ''Reporting result to Squash TM: CAMP-4-TC-101 - FAILED''),
                 (WARN, ''Screenshot file not found: shots/login.png''),
                 (INFO, ''Successfully reported result for: CAMP-4-TC-101'')]\<rparr>)"
  using failed_login_comment
  by (simp add: reportResult_def extract_101 send_request_def log_line_def online_env_def no_effects_def
      uploadScreenshot_def Let_def failed_login_result_def)

subsection \<open>C9: sending never throws\<close>

text \<open>
  Claim C9. \<^verbatim>\<open>sendReport\<close> always returns a boolean. When the transport rejects the
  mail it returns \<^verbatim>\<open>false\<close> and the last line logged is the error line with the
  transport's message; when the transport accepts the mail it returns \<^verbatim>\<open>true\<close> and
  exactly that mail was handed over; when the report cannot be generated it returns
  \<^verbatim>\<open>false\<close>, logs the error and hands nothing to the transport.
\<close>

theorem sendReport_never_throws:
  shows "(\<exists>sent. fst (sendReport env data attachmentPaths fx) = Inr sent)
       \<and> (generateHtmlReport env data = Inr h
            \<and> sendMail env (mail_options_for env data attachmentPaths h) = Some msg
          \<longrightarrow> fst (sendReport env data attachmentPaths fx) = Inr False
              \<and> last (mail_log (snd (sendReport env data attachmentPaths fx))) =
                  (ERROR, ''Failed to send email report: '' @ msg))
       \<and> (generateHtmlReport env data = Inr h
            \<and> sendMail env (mail_options_for env data attachmentPaths h) = None
          \<longrightarrow> fst (sendReport env data attachmentPaths fx) = Inr True
              \<and> mails (snd (sendReport env data attachmentPaths fx)) =
                  mails fx @ [mail_options_for env data attachmentPaths h])
       \<and> (generateHtmlReport env data = Inl e
          \<longrightarrow> fst (sendReport env data attachmentPaths fx) = Inr False
              \<and> mails (snd (sendReport env data attachmentPaths fx)) = mails fx
              \<and> last (mail_log (snd (sendReport env data attachmentPaths fx))) =
                  (ERROR, ''Failed to send email report: '' @ message_of e))"
proof -
  have 1: "\<exists>sent. fst (sendReport env data attachmentPaths fx) = Inr sent"
    by (cases "send_body env data attachmentPaths fx"; cases "fst (send_body env data attachmentPaths fx)")
       (auto simp: sendReport_def)
  have 2: "fst (sendReport env data attachmentPaths fx) = Inr False
           \<and> last (mail_log (snd (sendReport env data attachmentPaths fx))) =
               (ERROR, ''Failed to send email report: '' @ msg)"
    if "generateHtmlReport env data = Inr h"
      and "sendMail env (mail_options_for env data attachmentPaths h) = Some msg"
    using that by (simp add: sendReport_def send_body_def Let_def mail_log_line_def)
  have 3: "fst (sendReport env data attachmentPaths fx) = Inr True
           \<and> mails (snd (sendReport env data attachmentPaths fx)) =
               mails fx @ [mail_options_for env data attachmentPaths h]"
    if "generateHtmlReport env data = Inr h"
      and "sendMail env (mail_options_for env data attachmentPaths h) = None"
    using that by (simp add: sendReport_def send_body_def Let_def mail_log_line_def)
  have 4: "fst (sendReport env data attachmentPaths fx) = Inr False
           \<and> mails (snd (sendReport env data attachmentPaths fx)) = mails fx
           \<and> last (mail_log (snd (sendReport env data attachmentPaths fx))) =
               (ERROR, ''Failed to send email report: '' @ message_of e)"
    if "generateHtmlReport env data = Inl e"
    using that by (simp add: sendReport_def send_body_def Let_def mail_log_line_def)
  from 1 2 3 4 show ?thesis by blast
qed

lemma html_small: "generateHtmlReport (mail_env True None) (report_data 8 2 10) = Inr ''<p>80% of 10 passed</p>''"
  by code_simp

lemma invalid_date_html:
  "generateHtmlReport (mail_env True None) invalid_date_data = Inl (RangeError ''Invalid time value'')"
  by (simp add: generateHtmlReport_def mail_env_def invalid_date_data_def iso_date_def)

theorem sendReport_never_throws_witness:
  "generateHtmlReport (mail_env True (Some ''connect ECONNREFUSED'')) (report_data 8 2 10) =
      Inr ''<p>80% of 10 passed</p>''
   \<and> fst (sendReport (mail_env True (Some ''connect ECONNREFUSED'')) (report_data 8 2 10) None no_mail) = Inr False
   \<and> last (mail_log (snd (sendReport (mail_env True (Some ''connect ECONNREFUSED'')) (report_data 8 2 10) None no_mail))) =
       (ERROR, ''Failed to send email report: connect ECONNREFUSED'')
   \<and> fst (sendReport (mail_env True None) (report_data 8 2 10) None no_mail) = Inr True
   \<and> fst (sendReport (mail_env True None) invalid_date_data None no_mail) = Inr False"
proof -
  have h: "generateHtmlReport (mail_env True (Some ''connect ECONNREFUSED'')) (report_data 8 2 10) =
             Inr ''<p>80% of 10 passed</p>''"
    by code_simp
  have bad: "sendMail (mail_env True (Some ''connect ECONNREFUSED'')) m = Some ''connect ECONNREFUSED''" for m
    by (simp add: mail_env_def)
  have good: "sendMail (mail_env True None) m = None" for m
    by (simp add: mail_env_def)
  from sendReport_never_throws [of "mail_env True (Some ''connect ECONNREFUSED'')" "report_data 8 2 10" None no_mail
         "''<p>80% of 10 passed</p>''" "''connect ECONNREFUSED''"]
       sendReport_never_throws [of "mail_env True None" "report_data 8 2 10" None no_mail
         "''<p>80% of 10 passed</p>''"]
       sendReport_never_throws [of "mail_env True None" invalid_date_data None no_mail _ _ "RangeError ''Invalid time value''"]
       h html_small bad good invalid_date_html
  show ?thesis by simp
qed

subsection \<open>C5: missing files\<close>









subsection \<open>C4: the pass rate\<close>

lemma pr_8_10: "passRate (summary (report_data 8 2 10)) = Fin 80"
  by code_simp

lemma pr_23_40: "passRate (summary (report_data 23 17 40)) = Fin 57"
  by code_simp

lemma pr_0_0: "passRate (summary (report_data 0 0 0)) = NaN"
  by code_simp

lemma html_nan: "generateHtmlReport (mail_env True None) (report_data 0 0 0) = Inr ''<p>NaN% of 0 passed</p>''"
  by code_simp

lemma subject_8_10:
  "generateSubject (summary (report_data 8 2 10)) =
     cross_mark @ '' FAILED | Test Report | 80% Pass Rate | QA | 10 Tests''"
  by code_simp

text \<open>
  The rounding error of a double operation: \<open>fl x\<close> differs from \<open>x\<close> by at most
  \<open>\<bar>x\<bar> / 2 ^ 53\<close>, and \<open>binade\<close> is the exponent it claims to be.
\<close>

lemma round_half_even_error: "\<bar>of_int (round_half_even x) - x\<bar> \<le> 1 / 2"
proof -
  have "0 \<le> x - of_int \<lfloor>x\<rfloor>" and "x - of_int \<lfloor>x\<rfloor> < 1"
    by linarith+
  then show ?thesis
    by (auto simp: round_half_even_def Let_def)
qed

lemma round_half_even_nonneg: "0 \<le> x \<Longrightarrow> 0 \<le> round_half_even x"
  by (auto simp: round_half_even_def Let_def)

lemma binade_le:
  assumes "0 < x"
  shows "2 powi (binade x) \<le> x"
proof (cases "1 \<le> x")
  case True
  then have pos: "0 < \<lfloor>x\<rfloor>" by linarith
  from bitlen_bounds [OF pos] have b: "2 ^ nat (bitlen \<lfloor>x\<rfloor> - 1) \<le> \<lfloor>x\<rfloor>" by simp
  have "0 < bitlen \<lfloor>x\<rfloor>"
    using pos bitlen_nonneg [of "\<lfloor>x\<rfloor>"] bitlen_eq_zero_iff [of "\<lfloor>x\<rfloor>"] by linarith
  then have "(2::rat) powi (bitlen \<lfloor>x\<rfloor> - 1) = 2 ^ nat (bitlen \<lfloor>x\<rfloor> - 1)"
    by (simp add: power_int_def)
  also have "\<dots> = of_int (2 ^ nat (bitlen \<lfloor>x\<rfloor> - 1))" by simp
  also have "\<dots> \<le> of_int \<lfloor>x\<rfloor>" using b by (simp only: of_int_le_iff)
  also have "\<dots> \<le> x" by simp
  finally show ?thesis using True by (simp add: binade_def)
next
  case False
  let ?n = "nat \<lceil>1 / x\<rceil>"
  let ?j = "ceillog2 ?n"
  from assms have "0 < 1 / x" by simp
  then have "1 / x \<le> of_int \<lceil>1 / x\<rceil>" and "0 \<le> \<lceil>1 / x\<rceil>" by linarith+
  then have "1 / x \<le> of_nat ?n" by simp
  also have "\<dots> \<le> of_nat (2 ^ ?j)"
    using le_two_power_ceillog2 [of ?n] by (simp only: of_nat_le_iff)
  finally have "1 / x \<le> 2 ^ ?j" by simp
  with assms have "1 / 2 ^ ?j \<le> x"
    by (simp add: field_simps)
  moreover have "(2::rat) powi (- int ?j) = 1 / 2 ^ ?j"
    by (simp add: power_int_minus field_simps)
  ultimately show ?thesis using False by (simp add: binade_def)
qed

lemma fl_error: "\<bar>fl x - x\<bar> \<le> \<bar>x\<bar> / 2 ^ 53"
proof (cases "x = 0")
  case True
  then show ?thesis by (simp add: fl_def)
next
  case False
  define u :: rat where "u = 2 powi (binade \<bar>x\<bar> - 52)"
  define r where "r = round_half_even (\<bar>x\<bar> / u)"
  have u_pos: "0 < u" by (simp add: u_def)
  have u_le: "u * 2 ^ 52 \<le> \<bar>x\<bar>"
  proof -
    have "u * 2 ^ 52 = 2 powi (binade \<bar>x\<bar>)"
      by (simp add: u_def power_int_diff)
    with binade_le [of "\<bar>x\<bar>"] False show ?thesis by simp
  qed
  have fl: "fl x = sgn x * of_int r * u"
    using False by (simp add: fl_def Let_def u_def r_def)
  have "\<bar>fl x - x\<bar> = \<bar>sgn x * (of_int r * u - \<bar>x\<bar>)\<bar>"
    by (simp add: fl algebra_simps flip: mult_sgn_abs) (metis mult.commute mult_sgn_abs)
  also have "\<dots> = \<bar>of_int r * u - \<bar>x\<bar>\<bar>"
    using False by (simp add: abs_mult)
  also have "\<dots> = u * \<bar>of_int r - \<bar>x\<bar> / u\<bar>"
  proof -
    have "of_int r * u - \<bar>x\<bar> = u * (of_int r - \<bar>x\<bar> / u)"
      using u_pos by (simp add: field_simps)
    then show ?thesis using u_pos by (simp add: abs_mult)
  qed
  also have "\<dots> \<le> u * (1 / 2)"
    using round_half_even_error [of "\<bar>x\<bar> / u"] u_pos
    unfolding r_def by (intro mult_left_mono) simp_all
  also have "\<dots> \<le> \<bar>x\<bar> / 2 ^ 53"
    using u_le by (simp add: field_simps)
  finally show ?thesis .
qed

lemma fl_nonneg: "0 \<le> x \<Longrightarrow> 0 \<le> fl x"
  by (auto simp: fl_def Let_def sgn_if intro!: mult_nonneg_nonneg round_half_even_nonneg)

lemma binade_gt:
  assumes "0 < x"
  shows "x < 2 powi (binade x + 1)"
proof (cases "1 \<le> x")
  case True
  then have pos: "0 < \<lfloor>x\<rfloor>" by linarith
  from bitlen_bounds [OF pos] have b: "\<lfloor>x\<rfloor> < 2 ^ nat (bitlen \<lfloor>x\<rfloor>)" by simp
  have nn: "0 \<le> bitlen \<lfloor>x\<rfloor>" by (rule bitlen_nonneg)
  have "x < of_int (\<lfloor>x\<rfloor> + 1)" by linarith
  also have "\<dots> \<le> of_int (2 ^ nat (bitlen \<lfloor>x\<rfloor>))"
    using b by (simp only: of_int_le_iff)
  also have "\<dots> = 2 powi (bitlen \<lfloor>x\<rfloor>)"
    using nn by (simp add: power_int_def)
  finally show ?thesis using True by (simp add: binade_def)
next
  case False
  let ?n = "nat \<lceil>1 / x\<rceil>"
  let ?j = "ceillog2 ?n"
  from assms False have big: "1 < 1 / x" by simp
  then have c2: "2 \<le> \<lceil>1 / x\<rceil>" by linarith
  then have n2: "2 \<le> ?n" by linarith
  then have j1: "1 \<le> ?j"
    using ceillog2_mono [of 2 ?n] by simp
  from n2 have "0 < ?n" by linarith
  then have "2 ^ ?j < 2 * ?n" by (rule two_power_ceillog2_gt)
  with j1 have "2 * 2 ^ (?j - 1) < 2 * ?n"
    by (metis Suc_diff_1 less_le_trans less_one not_le power_Suc zero_less_one)
  then have "2 ^ (?j - 1) < ?n" by simp
  then have "2 ^ (?j - 1) + 1 \<le> ?n" by linarith
  then have "(of_nat (2 ^ (?j - 1) + 1) :: rat) \<le> of_nat ?n" by (simp only: of_nat_le_iff)
  then have "(2 :: rat) ^ (?j - 1) + 1 \<le> of_int \<lceil>1 / x\<rceil>" using c2 by simp
  moreover have "of_int \<lceil>1 / x\<rceil> < 1 / x + 1" by linarith
  ultimately have "(2 :: rat) ^ (?j - 1) < 1 / x" by linarith
  with assms have "x < 1 / 2 ^ (?j - 1)" by (simp add: field_simps)
  moreover have "(2 :: rat) powi (- int ?j + 1) = 1 / 2 ^ (?j - 1)"
  proof -
    from j1 have "- int ?j + 1 = - int (?j - 1)" by simp
    then have "(2 :: rat) powi (- int ?j + 1) = inverse (2 powi int (?j - 1))"
      by (simp only: power_int_minus)
    then show ?thesis by (simp only: power_int_of_nat inverse_eq_divide)
  qed
  ultimately show ?thesis using False by (simp add: binade_def)
qed

text \<open>
  The double the reporter rounds, \<open>fl (fl (p / t) * 100)\<close>, is within \<open>300 / 2 ^ 53\<close> of
  the exact percentage. The exact percentage plus one half is the integer
  \<open>(200 p + t) div (2 t)\<close> plus the fraction \<open>((200 p + t) mod (2 t)) / (2 t)\<close>; when
  that fraction is not zero it is at least \<open>1 / (2 t)\<close> away from both neighbouring
  integers, which is more than the error for every total an array length can be.
\<close>

lemma pass_rate_error:
  fixes p t :: nat
  assumes t: "0 < t" and p: "p \<le> t"
  shows "\<bar>fl (fl (of_nat p / of_nat t) * 100) - 100 * of_nat p / of_nat t\<bar> \<le> 300 / 2 ^ 53"
proof -
  define x :: rat where "x = of_nat p / of_nat t"
  define q where "q = fl x"
  define y where "y = fl (q * 100)"
  have x0: "0 \<le> x" and x1: "x \<le> 1"
    using t p by (simp_all add: x_def)
  have qx: "\<bar>q - x\<bar> \<le> 1 / 2 ^ 53"
  proof -
    have "\<bar>q - x\<bar> \<le> \<bar>x\<bar> / 2 ^ 53" unfolding q_def by (rule fl_error)
    also have "\<dots> \<le> 1 / 2 ^ 53" using x0 x1 by (simp add: divide_right_mono)
    finally show ?thesis .
  qed
  have q0: "0 \<le> q" unfolding q_def using x0 by (rule fl_nonneg)
  have "(1::rat) / 2 ^ 53 \<le> 1" by simp
  with qx x1 have q2: "q \<le> 2" by linarith
  have yq: "\<bar>y - q * 100\<bar> \<le> 200 / 2 ^ 53"
  proof -
    have "\<bar>y - q * 100\<bar> \<le> \<bar>q * 100\<bar> / 2 ^ 53" unfolding y_def by (rule fl_error)
    also have "\<dots> \<le> 200 / 2 ^ 53" using q0 q2 by (simp add: divide_right_mono)
    finally show ?thesis .
  qed
  have "\<bar>y - 100 * x\<bar> = \<bar>(y - q * 100) + 100 * (q - x)\<bar>"
    by (simp add: algebra_simps)
  also have "\<dots> \<le> \<bar>y - q * 100\<bar> + \<bar>100 * (q - x)\<bar>"
    by (rule abs_triangle_ineq)
  also have "\<dots> = \<bar>y - q * 100\<bar> + 100 * \<bar>q - x\<bar>"
    by (simp only: abs_mult abs_numeral)
  also have "\<dots> \<le> 200 / 2 ^ 53 + 100 * (1 / 2 ^ 53)"
    using yq qx by (intro add_mono mult_left_mono) simp_all
  also have "\<dots> = 300 / 2 ^ 53" by simp
  finally show ?thesis by (simp add: y_def q_def x_def)
qed

lemma floor_near:
  fixes X y d :: rat
  assumes "\<bar>y - X\<bar> \<le> d" and "of_int n + d \<le> X + 1 / 2" and "X + 1 / 2 + d < of_int n + 1"
  shows "\<lfloor>y + 1 / 2\<rfloor> = n"
proof (rule floor_unique)
  show "of_int n \<le> y + 1 / 2" using assms by linarith
  show "y + 1 / 2 < of_int n + 1" using assms by linarith
qed

lemma half_up_div:
  fixes p t :: nat
  assumes t: "0 < t"
  shows "100 * of_nat p / of_nat t + 1 / 2 =
           (of_int (int ((200 * p + t) div (2 * t))) :: rat) + of_nat ((200 * p + t) mod (2 * t)) / of_nat (2 * t)"
proof -
  define N where "N = 200 * p + t"
  define D where "D = 2 * t"
  have D: "0 < D" using t by (simp add: D_def)
  have "N = D * (N div D) + N mod D" by simp
  then have "(of_nat N :: rat) = of_nat D * of_nat (N div D) + of_nat (N mod D)"
    by (metis of_nat_add of_nat_mult)
  then have "(of_nat N :: rat) / of_nat D = of_nat (N div D) + of_nat (N mod D) / of_nat D"
    using D by (simp add: add_divide_distrib)
  moreover have "100 * of_nat p / of_nat t + 1 / 2 = (of_nat N :: rat) / of_nat D"
    using t by (simp add: N_def D_def field_simps)
  ultimately show ?thesis by (simp add: N_def D_def)
qed

lemma small_total_gap:
  fixes t :: nat
  assumes "0 < t" and "t < 2 ^ 32"
  shows "(300::rat) / 2 ^ 53 < 1 / of_nat (2 * t)"
proof -
  from assms have "(of_nat (2 * t) :: rat) < of_nat (2 ^ 33)"
    by (simp only: of_nat_less_iff) simp
  then have "(of_nat (2 * t) :: rat) * 300 < 2 ^ 53" by simp
  with assms show ?thesis by (simp add: field_simps)
qed

lemma pass_rate_no_tie:
  fixes p t :: nat
  assumes t: "0 < t" and p: "p \<le> t" and small: "t < 2 ^ 32"
      and no_tie: "(200 * p + t) mod (2 * t) \<noteq> 0"
  shows "\<lfloor>fl (fl (of_nat p / of_nat t) * 100) + 1 / 2\<rfloor> = \<lfloor>100 * of_nat p / of_nat t + (1 / 2 :: rat)\<rfloor>"
proof -
  define n where "n = int ((200 * p + t) div (2 * t))"
  define r where "r = (200 * p + t) mod (2 * t)"
  define D :: rat where "D = of_nat (2 * t)"
  define X :: rat where "X = 100 * of_nat p / of_nat t"
  have D: "0 < D" using t by (simp add: D_def)
  have r1: "1 \<le> r" and r2: "r + 1 \<le> 2 * t"
    using no_tie t by (simp_all add: r_def Suc_leI)
  have X: "X + 1 / 2 = of_int n + of_nat r / D"
    unfolding X_def n_def r_def D_def by (rule half_up_div [OF t])
  have gap: "300 / 2 ^ 53 < 1 / D"
    unfolding D_def by (rule small_total_gap [OF t small])
  have lo: "1 / D \<le> of_nat r / D"
    using r1 D by (simp add: divide_right_mono)
  have hi: "of_nat r / D + 1 / D \<le> 1"
  proof -
    have "(of_nat (r + 1) :: rat) \<le> of_nat (2 * t)" using r2 by (simp only: of_nat_le_iff)
    then have "(of_nat r + 1) / D \<le> 1" using D by (simp add: D_def)
    then show ?thesis by (simp add: add_divide_distrib)
  qed
  have a: "of_int n + 300 / 2 ^ 53 \<le> X + 1 / 2" using X lo gap by linarith
  have b: "X + 1 / 2 + 300 / 2 ^ 53 < of_int n + 1" using X hi gap by linarith
  have "\<lfloor>fl (fl (of_nat p / of_nat t) * 100) + 1 / 2\<rfloor> = n"
    using pass_rate_error [OF t p] a b unfolding X_def by (rule floor_near)
  moreover have "\<lfloor>X + 1 / 2\<rfloor> = n"
  proof (rule floor_unique)
    have "(0::rat) \<le> 300 / 2 ^ 53" by simp
    with a show "of_int n \<le> X + 1 / 2" by linarith
    have "(0::rat) \<le> 300 / 2 ^ 53" by simp
    with b show "X + 1 / 2 < of_int n + 1" by linarith
  qed
  ultimately show ?thesis by (simp add: X_def)
qed

lemma pass_rate_near:
  fixes p t :: nat
  assumes t: "0 < t" and p: "p \<le> t" and small: "t < 2 ^ 32"
  shows "\<lfloor>fl (fl (of_nat p / of_nat t) * 100) + 1 / 2\<rfloor> = \<lfloor>100 * of_nat p / of_nat t + (1 / 2 :: rat)\<rfloor>
       \<or> \<lfloor>fl (fl (of_nat p / of_nat t) * 100) + 1 / 2\<rfloor> = \<lfloor>100 * of_nat p / of_nat t + (1 / 2 :: rat)\<rfloor> - 1"
proof (cases "(200 * p + t) mod (2 * t) = 0")
  case False
  from pass_rate_no_tie [OF t p small False] show ?thesis by simp
next
  case True
  define n where "n = int ((200 * p + t) div (2 * t))"
  define X :: rat where "X = 100 * of_nat p / of_nat t"
  define y where "y = fl (fl (of_nat p / of_nat t) * 100)"
  have X: "X + 1 / 2 = of_int n"
    using half_up_div [OF t, of p] True by (simp add: X_def n_def)
  have err: "\<bar>y - X\<bar> \<le> 300 / 2 ^ 53"
    unfolding y_def X_def by (rule pass_rate_error [OF t p])
  have fX: "\<lfloor>X + 1 / 2\<rfloor> = n" by (simp add: X)
  have small_d: "(300::rat) / 2 ^ 53 < 1" by simp
  have lo': "of_int n - 1 \<le> y + 1 / 2" using err X small_d by linarith
  then have lo: "of_int (n - 1) \<le> y + 1 / 2" by simp
  have hi: "y + 1 / 2 < of_int n + 1" using err X small_d by linarith
  have "\<lfloor>y + 1 / 2\<rfloor> = n \<or> \<lfloor>y + 1 / 2\<rfloor> = n - 1"
  proof (cases "of_int n \<le> y + 1 / 2")
    case True
    with hi have "\<lfloor>y + 1 / 2\<rfloor> = n" by (intro floor_unique)
    then show ?thesis by simp
  next
    case False
    with lo have "\<lfloor>y + 1 / 2\<rfloor> = n - 1" by (intro floor_unique) simp_all
    then show ?thesis by simp
  qed
  with fX show ?thesis by (simp add: X_def y_def)
qed

lemma passRate_positive_total:
  "0 < totalTests s \<Longrightarrow>
     passRate s = Fin (of_int \<lfloor>fl (fl (of_nat (passed s) / of_nat (totalTests s)) * 100) + 1 / 2\<rfloor>)"
  by (simp add: passRate_def js_divide_def js_times_def Math_round_def)

lemma passRate_zero_total:
  "totalTests s = 0 \<Longrightarrow> passed s = 0 \<Longrightarrow> passRate s = NaN"
  by (simp add: passRate_def js_divide_def js_times_def Math_round_def)

text \<open>With no tests but a positive count of passed ones the quotient is infinite.\<close>

lemma passRate_infinity:
  "totalTests s = 0 \<Longrightarrow> 0 < passed s \<Longrightarrow>
     passRate s = PosInf \<and> Number_toString (passRate s) = ''Infinity''"
  by (simp add: passRate_def js_divide_def js_times_def Math_round_def Number_toString_def)

text \<open>
  Claim C4, as amended. For a summary with \<open>0 < totalTests < 2 ^ 32\<close> and
  \<open>passed \<le> totalTests\<close>, the pass rate is \<^verbatim>\<open>Math.round\<close> of the double
  \<^verbatim>\<open>(passed / totalTests) * 100\<close>: it is the exact percentage rounded half up whenever the
  exact percentage is not halfway between two integers, and otherwise that integer or the
  one below it. With \<open>totalTests = 0\<close> and \<open>passed = 0\<close> the pass rate is \<open>NaN\<close>, its
  text is \<^verbatim>\<open>NaN\<close>, and that text is what replaces every \<^verbatim>\<open>{{PASS_RATE}}\<close> of the
  template.
\<close>

theorem pass_rate_value:
  shows "(0 < totalTests s \<and> passed s \<le> totalTests s \<and> totalTests s < 2 ^ 32
            \<and> (200 * passed s + totalTests s) mod (2 * totalTests s) \<noteq> 0
          \<longrightarrow> passRate s =
                Fin (of_int \<lfloor>100 * of_nat (passed s) / of_nat (totalTests s) + (1 / 2 :: rat)\<rfloor>))
       \<and> (0 < totalTests s \<and> passed s \<le> totalTests s \<and> totalTests s < 2 ^ 32
          \<longrightarrow> passRate s =
                Fin (of_int \<lfloor>100 * of_nat (passed s) / of_nat (totalTests s) + (1 / 2 :: rat)\<rfloor>)
              \<or> passRate s =
                Fin (of_int (\<lfloor>100 * of_nat (passed s) / of_nat (totalTests s) + (1 / 2 :: rat)\<rfloor> - 1)))
       \<and> (totalTests s = 0 \<and> passed s = 0
          \<longrightarrow> passRate s = NaN \<and> Number_toString (passRate s) = ''NaN'')
       \<and> (totalTests (summary data) = 0 \<and> passed (summary data) = 0
          \<longrightarrow> substitute_summary template data start end_iso =
                substitute_tail (replace_all ''{{PASS_RATE}}'' ''NaN'' (substitute_head template data))
                  data start end_iso)"
proof -
  have 1: "passRate s = Fin (of_int \<lfloor>100 * of_nat (passed s) / of_nat (totalTests s) + (1 / 2 :: rat)\<rfloor>)"
    if "0 < totalTests s" and "passed s \<le> totalTests s" and "totalTests s < 2 ^ 32"
      and "(200 * passed s + totalTests s) mod (2 * totalTests s) \<noteq> 0"
    using passRate_positive_total [OF that(1)] pass_rate_no_tie [OF that] by simp
  have 2: "passRate s = Fin (of_int \<lfloor>100 * of_nat (passed s) / of_nat (totalTests s) + (1 / 2 :: rat)\<rfloor>)
         \<or> passRate s = Fin (of_int (\<lfloor>100 * of_nat (passed s) / of_nat (totalTests s) + (1 / 2 :: rat)\<rfloor> - 1))"
    if "0 < totalTests s" and "passed s \<le> totalTests s" and "totalTests s < 2 ^ 32"
    using passRate_positive_total [OF that(1)] pass_rate_near [OF that] by auto
  have 3: "passRate s = NaN \<and> Number_toString (passRate s) = ''NaN''"
    if "totalTests s = 0" and "passed s = 0"
    using passRate_zero_total [OF that] by (simp add: Number_toString_def)
  have 4: "substitute_summary template data start end_iso =
             substitute_tail (replace_all ''{{PASS_RATE}}'' ''NaN'' (substitute_head template data))
               data start end_iso"
    if "totalTests (summary data) = 0" and "passed (summary data) = 0"
    using passRate_zero_total [OF that] by (simp add: substitute_summary_def Number_toString_def)
  from 1 2 3 4 show ?thesis by blast
qed

theorem pass_rate_value_witness:
  "0 < totalTests (summary (report_data 8 2 10))
   \<and> passed (summary (report_data 8 2 10)) \<le> totalTests (summary (report_data 8 2 10))
   \<and> totalTests (summary (report_data 8 2 10)) < 2 ^ 32
   \<and> (200 * passed (summary (report_data 8 2 10)) + totalTests (summary (report_data 8 2 10)))
        mod (2 * totalTests (summary (report_data 8 2 10))) \<noteq> 0
   \<and> passRate (summary (report_data 8 2 10)) = Fin 80
   \<and> totalTests (summary (report_data 0 0 0)) = 0
   \<and> passed (summary (report_data 0 0 0)) = 0
   \<and> passRate (summary (report_data 0 0 0)) = NaN
   \<and> Number_toString (passRate (summary (report_data 0 0 0))) = ''NaN''
   \<and> substitute_summary small_template (report_data 0 0 0) [] [] =
       substitute_tail (replace_all ''{{PASS_RATE}}'' ''NaN'' (substitute_head small_template (report_data 0 0 0)))
         (report_data 0 0 0) [] []"
proof -
  have a: "0 < totalTests (summary (report_data 8 2 10))"
    "passed (summary (report_data 8 2 10)) \<le> totalTests (summary (report_data 8 2 10))"
    "totalTests (summary (report_data 8 2 10)) < 2 ^ 32"
    "(200 * passed (summary (report_data 8 2 10)) + totalTests (summary (report_data 8 2 10)))
        mod (2 * totalTests (summary (report_data 8 2 10))) \<noteq> 0"
    by (simp_all add: report_data_def)
  have b: "totalTests (summary (report_data 0 0 0)) = 0" "passed (summary (report_data 0 0 0)) = 0"
    by (simp_all add: report_data_def)
  have v: "\<lfloor>100 * of_nat (passed (summary (report_data 8 2 10)))
             / of_nat (totalTests (summary (report_data 8 2 10))) + (1 / 2 :: rat)\<rfloor> = 80"
  proof -
    have "\<lfloor>(161 :: rat) / 2\<rfloor> = 80" by (rule floor_unique) simp_all
    then show ?thesis by (simp add: report_data_def)
  qed
  from pass_rate_value [of "summary (report_data 8 2 10)" "report_data 0 0 0" small_template "[]" "[]"]
       pass_rate_value [of "summary (report_data 0 0 0)" "report_data 0 0 0" small_template "[]" "[]"]
       a b v
  show ?thesis by (simp add: Number_toString_def)
qed

text \<open>
  23 of 40 passed: the exact percentage is 57.5, which rounds to 58; the double
  \<^verbatim>\<open>(23 / 40) * 100\<close> is just below 57.5, and the reporter prints 57.
\<close>

theorem pass_rate_tie_counterexample:
  "passRate (summary (report_data 23 17 40)) = Fin 57
   \<and> \<lfloor>100 * of_nat (passed (summary (report_data 23 17 40)))
        / of_nat (totalTests (summary (report_data 23 17 40))) + (1 / 2 :: rat)\<rfloor> = 58"
proof -
  have "\<lfloor>100 * of_nat (passed (summary (report_data 23 17 40)))
        / of_nat (totalTests (summary (report_data 23 17 40))) + (1 / 2 :: rat)\<rfloor> = 58"
    by (simp add: report_data_def)
  with pr_23_40 show ?thesis by simp
qed

end
